theory Spec2Isabelle
  imports Complex_Main
begin

section \<open>Numeric model\<close>

text \<open>
  The emitter is a template over \<open>Float\<close>. Floating-point values are modelled by exact
  reals; the one place where the source depends on a non-finite value (the NaN guard of
  the balance weight) is modelled by an explicit result type. Unsigned 32-bit indices
  (\<open>UInt32\<close>, \<open>uint32_t\<close>) are naturals with the wrap-around written out.
\<close>

definition u32 :: "nat \<Rightarrow> nat" where
  "u32 n = n mod 2 ^ 32"

text \<open>\<open>dr::clip(value, min, max)\<close>.\<close>

definition clip :: "real \<Rightarrow> real \<Rightarrow> real \<Rightarrow> real" where
  "clip v lo hi = min (max v lo) hi"

definition rad_to_deg :: "real \<Rightarrow> real" where
  "rad_to_deg a = a * (180 / pi)"

text \<open>\<open>dr::floor2int<UInt32>\<close>; its argument is never negative where the source uses it.\<close>

definition floor2int :: "real \<Rightarrow> nat" where
  "floor2int x = u32 (nat \<lfloor>x\<rfloor>)"

section \<open>Buffers\<close>

text \<open>
  A \<open>FloatStorage\<close> is a list of reals. A gather or scatter with an index outside the
  buffer has no defined result in the source; it is the value \<open>None\<close> here.
\<close>

definition arange :: "nat \<Rightarrow> nat list" where
  "arange n = [0..<n]"

definition gather :: "'a list \<Rightarrow> nat list \<Rightarrow> 'a list option" where
  "gather src idx =
     (if list_all (\<lambda>i. i < length src) idx then Some (map (\<lambda>i. src ! i) idx) else None)"

definition scatter :: "'a list \<Rightarrow> 'a list \<Rightarrow> nat list \<Rightarrow> 'a list option" where
  "scatter target vals idx =
     (if list_all (\<lambda>i. i < length target) idx
      then Some (fold (\<lambda>(i, v) t. t[i := v]) (zip idx vals) target)
      else None)"

section \<open>Mixture builder\<close>

text \<open>
  The header that declares the grid constants is not part of the sources at hand.
  \<open>TURBITDITY_LVLS\<close> and \<open>ELEVATION_CTRL_PTS\<close> are parameters of the model. A Gaussian
  has the five fields \<open>{mu_phi, mu_theta, sigma_phi, sigma_theta, weight}\<close> and a mixture
  has five Gaussians (source comments of \<open>sample_sky\<close> and \<open>build_tgmm_distribution\<close>).
\<close>

definition TGMM_COMPONENTS :: nat where
  "TGMM_COMPONENTS = 5"

definition TGMM_GAUSSIAN_PARAMS :: nat where
  "TGMM_GAUSSIAN_PARAMS = 5"

definition eta_idx_f :: "nat \<Rightarrow> real \<Rightarrow> real" where
  "eta_idx_f ELEVATION_CTRL_PTS eta =
     clip ((rad_to_deg eta - 2) / 3) 0 (real (ELEVATION_CTRL_PTS - 1))"

definition t_idx_f :: "nat \<Rightarrow> real \<Rightarrow> real" where
  "t_idx_f TURBITDITY_LVLS turbidity =
     clip (turbidity - 2) 0 (real ((TURBITDITY_LVLS - 1) - 1))"

definition eta_idx_low :: "nat \<Rightarrow> real \<Rightarrow> nat" where
  "eta_idx_low ELEVATION_CTRL_PTS eta = floor2int (eta_idx_f ELEVATION_CTRL_PTS eta)"

definition t_idx_low :: "nat \<Rightarrow> real \<Rightarrow> nat" where
  "t_idx_low TURBITDITY_LVLS turbidity = floor2int (t_idx_f TURBITDITY_LVLS turbidity)"

definition eta_idx_high :: "nat \<Rightarrow> real \<Rightarrow> nat" where
  "eta_idx_high ELEVATION_CTRL_PTS eta =
     min (u32 (eta_idx_low ELEVATION_CTRL_PTS eta + 1)) (ELEVATION_CTRL_PTS - 1)"

definition t_idx_high :: "nat \<Rightarrow> real \<Rightarrow> nat" where
  "t_idx_high TURBITDITY_LVLS turbidity =
     min (u32 (t_idx_low TURBITDITY_LVLS turbidity + 1)) ((TURBITDITY_LVLS - 1) - 1)"

definition eta_rem :: "nat \<Rightarrow> real \<Rightarrow> real" where
  "eta_rem ELEVATION_CTRL_PTS eta =
     eta_idx_f ELEVATION_CTRL_PTS eta - real (eta_idx_low ELEVATION_CTRL_PTS eta)"

definition t_rem :: "nat \<Rightarrow> real \<Rightarrow> real" where
  "t_rem TURBITDITY_LVLS turbidity =
     t_idx_f TURBITDITY_LVLS turbidity - real (t_idx_low TURBITDITY_LVLS turbidity)"

definition t_block_size :: "nat \<Rightarrow> real list \<Rightarrow> nat" where
  "t_block_size TURBITDITY_LVLS m_tgmm_datasets =
     u32 (length m_tgmm_datasets div (TURBITDITY_LVLS - 1))"

definition result_size :: "nat \<Rightarrow> nat \<Rightarrow> real list \<Rightarrow> nat" where
  "result_size TURBITDITY_LVLS ELEVATION_CTRL_PTS m_tgmm_datasets =
     t_block_size TURBITDITY_LVLS m_tgmm_datasets div ELEVATION_CTRL_PTS"

definition tgmm_indices :: "nat \<Rightarrow> nat \<Rightarrow> real list \<Rightarrow> real \<Rightarrow> real \<Rightarrow> nat list" where
  "tgmm_indices TURBITDITY_LVLS ELEVATION_CTRL_PTS m_tgmm_datasets turbidity eta =
     (let tl = t_idx_low TURBITDITY_LVLS turbidity;
          th = t_idx_high TURBITDITY_LVLS turbidity;
          el = eta_idx_low ELEVATION_CTRL_PTS eta;
          eh = eta_idx_high ELEVATION_CTRL_PTS eta;
          tbs = t_block_size TURBITDITY_LVLS m_tgmm_datasets;
          rs = result_size TURBITDITY_LVLS ELEVATION_CTRL_PTS m_tgmm_datasets
      in [u32 (u32 (tl * tbs) + u32 (el * rs)),
          u32 (u32 (tl * tbs) + u32 (eh * rs)),
          u32 (u32 (th * tbs) + u32 (el * rs)),
          u32 (u32 (th * tbs) + u32 (eh * rs))])"

definition lerp_factors :: "nat \<Rightarrow> nat \<Rightarrow> real \<Rightarrow> real \<Rightarrow> real list" where
  "lerp_factors TURBITDITY_LVLS ELEVATION_CTRL_PTS turbidity eta =
     (let tr = t_rem TURBITDITY_LVLS turbidity;
          er = eta_rem ELEVATION_CTRL_PTS eta
      in [(1 - tr) * (1 - er),
          (1 - tr) * er,
          tr * (1 - er),
          tr * er])"

text \<open>The inner loop over \<open>weight_idx\<close>: scale the weight field of every Gaussian.\<close>

function apply_lerp_factor :: "real \<Rightarrow> nat \<Rightarrow> real list \<Rightarrow> real list option" where
  "apply_lerp_factor factor weight_idx params =
     (if weight_idx < TGMM_COMPONENTS then
        (let gaussian_weight_idx =
               u32 (weight_idx * TGMM_GAUSSIAN_PARAMS + (TGMM_GAUSSIAN_PARAMS - 1))
         in if gaussian_weight_idx < length params
            then apply_lerp_factor factor (weight_idx + 1)
                   (params[gaussian_weight_idx := params ! gaussian_weight_idx * factor])
            else None)
      else Some params)"
  by pat_completeness auto
termination
  by (relation "measure (\<lambda>(factor, weight_idx, params). TGMM_COMPONENTS - weight_idx)") auto

text \<open>The outer loop over \<open>mixture_idx\<close>: gather a corner, rescale, scatter it back.\<close>

function mixture_loop ::
  "real list \<Rightarrow> nat list \<Rightarrow> real list \<Rightarrow> nat \<Rightarrow> nat \<Rightarrow> real list \<Rightarrow> real list option" where
  "mixture_loop m_tgmm_datasets indices factors rs mixture_idx distrib_params =
     (if mixture_idx < 4 then
        (case gather m_tgmm_datasets
                (map (\<lambda>p. u32 (indices ! mixture_idx + p)) (arange rs)) of
           None \<Rightarrow> None
         | Some params \<Rightarrow>
             (case apply_lerp_factor (factors ! mixture_idx) 0 params of
                None \<Rightarrow> None
              | Some params' \<Rightarrow>
                  (case scatter distrib_params params'
                          (map (\<lambda>p. u32 (u32 (mixture_idx * rs) + p)) (arange rs)) of
                     None \<Rightarrow> None
                   | Some distrib_params' \<Rightarrow>
                       mixture_loop m_tgmm_datasets indices factors rs
                         (mixture_idx + 1) distrib_params')))
      else Some distrib_params)"
  by pat_completeness auto
termination
  by (relation "measure (\<lambda>(d, i, f, rs, mixture_idx, p). 4 - mixture_idx)") auto

text \<open>
  \<open>build_tgmm_distribution\<close> returns the combined table and the weights handed to the
  \<open>DiscreteDistribution\<close> constructor; the distribution is represented by these weights.
\<close>

definition build_tgmm_distribution ::
  "nat \<Rightarrow> nat \<Rightarrow> real list \<Rightarrow> real \<Rightarrow> real \<Rightarrow> (real list \<times> real list) option" where
  "build_tgmm_distribution TURBITDITY_LVLS ELEVATION_CTRL_PTS m_tgmm_datasets turbidity eta =
     (let rs = result_size TURBITDITY_LVLS ELEVATION_CTRL_PTS m_tgmm_datasets
      in case mixture_loop m_tgmm_datasets
                (tgmm_indices TURBITDITY_LVLS ELEVATION_CTRL_PTS m_tgmm_datasets turbidity eta)
                (lerp_factors TURBITDITY_LVLS ELEVATION_CTRL_PTS turbidity eta)
                rs 0 (replicate (u32 (4 * rs)) 0) of
           None \<Rightarrow> None
         | Some distrib_params \<Rightarrow>
             (case gather distrib_params
                     (map (\<lambda>i. u32 (u32 (TGMM_GAUSSIAN_PARAMS * i) + (TGMM_GAUSSIAN_PARAMS - 1)))
                        (arange (4 * TGMM_COMPONENTS))) of
                None \<Rightarrow> None
              | Some mis_weights \<Rightarrow> Some (distrib_params, mis_weights)))"

declare apply_lerp_factor.simps [simp del] mixture_loop.simps [simp del]

text \<open>
  The sum of the weight fields of the mixture stored at offset \<open>base\<close> of the dataset.
\<close>

definition corner_weight_sum :: "real list \<Rightarrow> nat \<Rightarrow> real" where
  "corner_weight_sum m_tgmm_datasets base =
     (\<Sum>j<TGMM_COMPONENTS.
        m_tgmm_datasets ! (base + (j * TGMM_GAUSSIAN_PARAMS + (TGMM_GAUSSIAN_PARAMS - 1))))"

text \<open>Closed form of the inner loop on a block of 25 entries, used in the proofs.\<close>

definition scaled :: "real \<Rightarrow> real list \<Rightarrow> real list" where
  "scaled f p = p[4 := p ! 4 * f, 9 := p ! 9 * f, 14 := p ! 14 * f,
                  19 := p ! 19 * f, 24 := p ! 24 * f]"

section \<open>Coefficient interpolator\<close>

text \<open>
  A \<open>TensorXf\<close> is its flattened array together with the extent of its first axis, the
  only extent \<open>bezier_interp\<close> reads. \<open>dr::take(dataset, i)\<close> is the \<open>i\<close>-th slice along
  the first axis; a slice index outside the tensor is \<open>None\<close>.
\<close>

record tensor =
  shape0 :: nat
  array :: "real list"

definition tensor_take :: "tensor \<Rightarrow> nat \<Rightarrow> real list option" where
  "tensor_take dataset i =
     (let inner = length (array dataset) div shape0 dataset
      in if i < shape0 dataset
         then Some (take inner (drop (i * inner) (array dataset)))
         else None)"

definition SKY_CTRL_PTS :: nat where
  "SKY_CTRL_PTS = 6"

definition coefs :: "real list" where
  "coefs = [1, 5, 10, 10, 5, 1]"

definition InvPi :: real where
  "InvPi = 1 / pi"

definition rcp :: "real \<Rightarrow> real" where
  "rcp y = 1 / y"

text \<open>The loop over the control points, with the three running values of the source.\<close>

function bezier_loop ::
  "tensor \<Rightarrow> real \<Rightarrow> real \<Rightarrow> nat \<Rightarrow> real list \<Rightarrow> real \<Rightarrow> real \<Rightarrow> real list option" where
  "bezier_loop dataset x x_pow_inv_scale ctrl_pt res x_pow x_pow_inv =
     (if ctrl_pt < SKY_CTRL_PTS then
        (case tensor_take dataset ctrl_pt of
           None \<Rightarrow> None
         | Some data \<Rightarrow>
             bezier_loop dataset x x_pow_inv_scale (ctrl_pt + 1)
               (map2 (\<lambda>r d. r + coefs ! ctrl_pt * x_pow * x_pow_inv * d) res data)
               (x_pow * x) (x_pow_inv * x_pow_inv_scale))
      else Some res)"
  by pat_completeness auto
termination
  by (relation "measure (\<lambda>(d, x, s, ctrl_pt, r, p, q). SKY_CTRL_PTS - ctrl_pt)") auto

declare bezier_loop.simps [simp del]

text \<open>
  \<open>OneMinusEpsilon\<close> is the largest value of the floating-point format below 1; it is a
  parameter of the model.
\<close>

definition bezier_interp :: "real \<Rightarrow> tensor \<Rightarrow> real \<Rightarrow> real list option" where
  "bezier_interp OneMinusEpsilon dataset eta =
     (let res = replicate (length (array dataset) div shape0 dataset) 0;
          x = root 3 (2 * InvPi * eta);
          x = min x OneMinusEpsilon;
          x_pow = 1;
          x_pow_inv = (1 - x) ^ (SKY_CTRL_PTS - 1);
          x_pow_inv_scale = rcp (1 - x)
      in bezier_loop dataset x x_pow_inv_scale 0 res x_pow x_pow_inv)"

text \<open>
  The blend as the specification words it: \<open>x\<close> clamped to \<open>[0, 1 - \<epsilon>]\<close> and, for each
  output entry, the sum over the six control points.
\<close>

definition bezier_sum :: "tensor \<Rightarrow> real \<Rightarrow> nat \<Rightarrow> real" where
  "bezier_sum dataset x j =
     (\<Sum>i<SKY_CTRL_PTS. coefs ! i * x ^ i * (1 - x) ^ (SKY_CTRL_PTS - 1 - i)
        * array dataset ! (i * (length (array dataset) div shape0 dataset) + j))"

definition bezier_spec :: "real \<Rightarrow> tensor \<Rightarrow> real \<Rightarrow> real list" where
  "bezier_spec OneMinusEpsilon dataset eta =
     map (bezier_sum dataset (clip (root 3 ((2 / pi) * eta)) 0 OneMinusEpsilon))
       [0..<length (array dataset) div shape0 dataset]"

text \<open>Entry \<open>j\<close> of the result, as a function of \<open>\<eta>\<close>.\<close>

definition bezier_entry :: "real \<Rightarrow> tensor \<Rightarrow> nat \<Rightarrow> real \<Rightarrow> real" where
  "bezier_entry OneMinusEpsilon dataset j eta =
     (case bezier_interp OneMinusEpsilon dataset eta of None \<Rightarrow> 0 | Some res \<Rightarrow> res ! j)"


section \<open>Energy balance estimator\<close>

text \<open>
  The result of a floating-point division of two finite values: a finite quotient, an
  infinity when only the divisor is zero, NaN for \<open>0 / 0\<close>.
\<close>

datatype fval = Finite real | Inf | NaN

definition fdiv :: "real \<Rightarrow> real \<Rightarrow> fval" where
  "fdiv a b = (if b \<noteq> 0 then Finite (a / b) else if a = 0 then NaN else Inf)"

definition isnan :: "fval \<Rightarrow> bool" where
  "isnan v = (v = NaN)"

definition select :: "bool \<Rightarrow> 'a \<Rightarrow> 'a \<Rightarrow> 'a" where
  "select c a b = (if c then a else b)"

text \<open>The three families of variants: \<open>is_rgb_v\<close>, \<open>is_spectral_v\<close>, or neither.\<close>

datatype variant = Monochrome | RGB | Spectral

datatype wav_distr = ContinuousDistribution "real \<times> real" "real list" | EmptyDistribution

text \<open>
  What \<open>estimate_sky_sun_ratio\<close> takes from outside the class: the two luminance
  overloads, \<open>get_area_ratio\<close>, the constant \<open>SPEC_TO_RGB_SUN_CONV\<close>, the channel
  wavelengths, and the values of the two Gauss-Legendre integrals (\<open>sky_radiance\<close> and
  \<open>sun_radiance\<close> of the source, which depend on the external radiance evaluators).
\<close>

record ratio_ext =
  luminance :: "real list \<Rightarrow> real"
  luminance_wav :: "real list \<Rightarrow> real list \<Rightarrow> real"
  get_area_ratio :: "real \<Rightarrow> real"
  SPEC_TO_RGB_SUN_CONV :: real
  wavelengths :: "real list"
  sky_radiance :: "real list"
  sun_radiance :: "real list"
  CHANNEL_COUNT :: nat
  range :: "real \<times> real"

text \<open>The lines "Extract luminance" of the vectorised branch.\<close>

definition sky_lum :: "variant \<Rightarrow> ratio_ext \<Rightarrow> real \<Rightarrow> real" where
  "sky_lum v ext m_sky_scale =
     (if v = RGB then m_sky_scale * luminance ext (sky_radiance ext)
      else m_sky_scale * luminance_wav ext (sky_radiance ext) (wavelengths ext))"

definition sun_lum :: "variant \<Rightarrow> ratio_ext \<Rightarrow> real \<Rightarrow> real \<Rightarrow> real" where
  "sun_lum v ext m_sun_scale m_sun_half_aperture =
     (if v = RGB
      then m_sun_scale * (luminance ext (sun_radiance ext) * get_area_ratio ext m_sun_half_aperture
                          * SPEC_TO_RGB_SUN_CONV ext)
      else m_sun_scale * (luminance_wav ext (sun_radiance ext) (wavelengths ext)
                          * get_area_ratio ext m_sun_half_aperture))"

text \<open>
  \<open>is_array\<close> is \<open>dr::is_array_v<Float>\<close>: false in the scalar variants, true in the
  vectorised ones.
\<close>

definition estimate_sky_sun_ratio ::
  "bool \<Rightarrow> variant \<Rightarrow> ratio_ext \<Rightarrow> real \<Rightarrow> real \<Rightarrow> real \<Rightarrow> fval \<times> wav_distr" where
  "estimate_sky_sun_ratio is_array v ext m_sky_scale m_sun_scale m_sun_half_aperture =
     (if \<not> is_array then
        (let distribution = [1, 1];
             sky_weight = fdiv m_sky_scale (m_sky_scale + m_sun_scale);
             sky_weight = select (isnan sky_weight) (Finite 0) sky_weight
         in (sky_weight, ContinuousDistribution (range ext) distribution))
      else
        (let sky_lum = sky_lum v ext m_sky_scale;
             sun_lum = sun_lum v ext m_sun_scale m_sun_half_aperture;
             res = fdiv sky_lum (sky_lum + sun_lum);
             res = select (isnan res) (Finite 0) res
         in if v = Spectral then
              (let avg_spec = map2 (+) (sun_radiance ext) (sky_radiance ext);
                   spectrum = take (CHANNEL_COUNT ext - 1) (tl avg_spec);
                   spectrum = (if list_all (\<lambda>s. s = 0) spectrum
                               then map (\<lambda>s. s + 1) spectrum else spectrum)
               in (res, ContinuousDistribution (range ext) spectrum))
            else (res, EmptyDistribution)))"

text \<open>
  The balance weight as the specification words it: sky luminance over the sum of sky and
  sun luminance, each scaled by its scale factor, with the NaN of \<open>0 / 0\<close> mapped to 0.
\<close>

definition balance_spec :: "variant \<Rightarrow> ratio_ext \<Rightarrow> real \<Rightarrow> real \<Rightarrow> real \<Rightarrow> fval" where
  "balance_spec v ext m_sky_scale m_sun_scale m_sun_half_aperture =
     (let sky_luminance = sky_lum v ext m_sky_scale;
          sun_luminance = sun_lum v ext m_sun_scale m_sun_half_aperture
      in if sky_luminance = 0 \<and> sun_luminance = 0 then Finite 0
         else fdiv sky_luminance (sky_luminance + sun_luminance))"


section \<open>Density evaluator\<close>

text \<open>
  What \<open>sky_pdf\<close> takes from outside the class: \<open>Frame3f::sin_theta\<close> and
  \<open>Frame3f::cos_theta\<close>, \<open>dir_to_sph\<close> (returning \<open>(theta, phi)\<close>), the Gaussian CDF of the
  base class, \<open>warp::square_to_std_normal_pdf\<close> and \<open>dr::Epsilon\<close>. Points are pairs,
  \<open>x()\<close> the first and \<open>y()\<close> the second component.
\<close>

type_synonym vector3f = "real \<times> real \<times> real"

type_synonym point2f = "real \<times> real"

record pdf_ext =
  sin_theta :: "vector3f \<Rightarrow> real"
  cos_theta :: "vector3f \<Rightarrow> real"
  dir_to_sph :: "vector3f \<Rightarrow> point2f"
  gaussian_cdf :: "point2f \<Rightarrow> point2f \<Rightarrow> point2f \<Rightarrow> point2f"
  square_to_std_normal_pdf :: "point2f \<Rightarrow> real"
  Epsilon :: real

definition TwoPi :: real where
  "TwoPi = 2 * pi"

text \<open>The query direction in the reference frame where the sun's azimuth is \<open>\<pi>/2\<close>.\<close>

definition reference_angles :: "pdf_ext \<Rightarrow> vector3f \<Rightarrow> point2f \<Rightarrow> point2f" where
  "reference_angles ext local_dir sun_angles =
     (let angles = dir_to_sph ext local_dir;
          angles = (snd angles, fst angles);
          angles = (fst angles - (fst sun_angles - 0.5 * pi), snd angles);
          angles = (select (fst angles < 0) (fst angles + TwoPi) (fst angles), snd angles);
          angles = (select (fst angles > TwoPi) (fst angles - TwoPi) (fst angles), snd angles)
      in angles)"

text \<open>The contribution of the Gaussian stored at \<open>gaussian_idx\<close> of the table.\<close>

definition gaussian_term :: "pdf_ext \<Rightarrow> real list \<Rightarrow> point2f \<Rightarrow> nat \<Rightarrow> real" where
  "gaussian_term ext m_tgmm_tables angles gaussian_idx =
     (let a = (0, 0);
          b = (TwoPi, 0.5 * pi);
          mu = (m_tgmm_tables ! (gaussian_idx + 0), m_tgmm_tables ! (gaussian_idx + 1));
          sigma = (m_tgmm_tables ! (gaussian_idx + 2), m_tgmm_tables ! (gaussian_idx + 3));
          cdf_a = gaussian_cdf ext mu sigma a;
          cdf_b = gaussian_cdf ext mu sigma b;
          volume = (fst cdf_b - fst cdf_a) * (snd cdf_b - snd cdf_a) * (fst sigma * snd sigma);
          sample = ((fst angles - fst mu) / fst sigma, (snd angles - snd mu) / snd sigma);
          gaussian_pdf = square_to_std_normal_pdf ext sample
      in m_tgmm_tables ! (gaussian_idx + 4) * gaussian_pdf / volume)"

text \<open>The loop over the Gaussians; a read past the end of the table is \<open>None\<close>.\<close>

function sky_pdf_loop :: "pdf_ext \<Rightarrow> real list \<Rightarrow> point2f \<Rightarrow> nat \<Rightarrow> real \<Rightarrow> real option" where
  "sky_pdf_loop ext m_tgmm_tables angles gaussian_idx pdf =
     (if gaussian_idx < 4 * TGMM_COMPONENTS * TGMM_GAUSSIAN_PARAMS then
        (if gaussian_idx + 4 < length m_tgmm_tables
         then sky_pdf_loop ext m_tgmm_tables angles (gaussian_idx + TGMM_GAUSSIAN_PARAMS)
                (pdf + gaussian_term ext m_tgmm_tables angles gaussian_idx)
         else None)
      else Some pdf)"
  by pat_completeness auto
termination
  by (relation "measure (\<lambda>(e, t, a, gaussian_idx, p).
        4 * TGMM_COMPONENTS * TGMM_GAUSSIAN_PARAMS - gaussian_idx)")
     (auto simp: TGMM_GAUSSIAN_PARAMS_def)

declare sky_pdf_loop.simps [simp del]

text \<open>
  \<open>dr::none_or<false>(active)\<close> is \<open>\<not> active\<close> in the scalar variants and \<open>false\<close> in the
  vectorised ones, where the loop always runs and the final \<open>dr::select\<close> masks the lane.
\<close>

definition sky_pdf ::
  "bool \<Rightarrow> pdf_ext \<Rightarrow> real list \<Rightarrow> vector3f \<Rightarrow> point2f \<Rightarrow> bool \<Rightarrow> real option" where
  "sky_pdf is_array ext m_tgmm_tables local_dir sun_angles active =
     (let sin_theta = sin_theta ext local_dir;
          active = (active \<and> cos_theta ext local_dir \<ge> 0 \<and> sin_theta \<noteq> 0);
          sin_theta = max sin_theta (Epsilon ext);
          angles = reference_angles ext local_dir sun_angles;
          active = (active \<and> snd angles \<ge> 0 \<and> snd angles \<le> 0.5 * pi)
      in if \<not> is_array \<and> \<not> active then Some 0
         else (case sky_pdf_loop ext m_tgmm_tables angles 0 0 of
                 None \<Rightarrow> None
               | Some pdf \<Rightarrow> Some (select active (pdf / sin_theta) 0)))"

text \<open>The mixture sum in closed form.\<close>

definition mixture_sum :: "pdf_ext \<Rightarrow> real list \<Rightarrow> point2f \<Rightarrow> real" where
  "mixture_sum ext m_tgmm_tables angles =
     (\<Sum>k<4 * TGMM_COMPONENTS.
        gaussian_term ext m_tgmm_tables angles (k * TGMM_GAUSSIAN_PARAMS))"


section \<open>The emitter\<close>

text \<open>
  An exception is a value: \<open>Log(Error, ...)\<close> and \<open>NotImplementedError\<close> throw, a property
  read with the wrong type and the base class can throw, and an out-of-range buffer access
  is reported as \<open>OutOfBounds\<close>. \<open>Log(Warn, ...)\<close> has no effect on the state and is left out.
\<close>

datatype error =
  LogError string
  | NotImplementedError string
  | PropertyError string
  | BaseError string
  | OutOfBounds

datatype prop_value = PFloat real | PInt int | PVector vector3f

type_synonym properties = "string \<Rightarrow> prop_value option"

definition has_property :: "properties \<Rightarrow> string \<Rightarrow> bool" where
  "has_property props name = (props name \<noteq> None)"

definition get_float :: "properties \<Rightarrow> string \<Rightarrow> real \<Rightarrow> error + real" where
  "get_float props name dflt =
     (case props name of
        None \<Rightarrow> Inr dflt
      | Some (PFloat v) \<Rightarrow> Inr v
      | Some (PInt i) \<Rightarrow> Inr (real_of_int i)
      | Some (PVector v) \<Rightarrow> Inl (PropertyError name))"

definition get_int :: "properties \<Rightarrow> string \<Rightarrow> int \<Rightarrow> error + int" where
  "get_int props name dflt =
     (case props name of
        None \<Rightarrow> Inr dflt
      | Some (PInt i) \<Rightarrow> Inr i
      | Some _ \<Rightarrow> Inl (PropertyError name))"

definition get_vector :: "properties \<Rightarrow> string \<Rightarrow> error + vector3f" where
  "get_vector props name =
     (case props name of
        Some (PVector v) \<Rightarrow> Inr v
      | _ \<Rightarrow> Inl (PropertyError name))"

text \<open>Sequencing of computations that can throw.\<close>

definition and_then :: "error + 'a \<Rightarrow> ('a \<Rightarrow> error + 'b) \<Rightarrow> error + 'b" where
  "and_then r f = (case r of Inl e \<Rightarrow> Inl e | Inr x \<Rightarrow> f x)"

definition in_bounds :: "'a option \<Rightarrow> error + 'a" where
  "in_bounds r = (case r of None \<Rightarrow> Inl OutOfBounds | Some x \<Rightarrow> Inr x)"

record date_time_record =
  year :: int
  month :: int
  day :: int
  hour :: real
  minute :: real
  second :: real

record location_record =
  latitude :: real
  longitude :: real
  timezone :: real

text \<open>The members imported from \<open>BaseSunskyEmitter\<close>; \<open>'tr\<close> is the transform type.\<close>

record 'tr base_emitter =
  m_turbidity :: real
  m_albedo :: "real list"
  m_sky_scale :: real
  m_sun_scale :: real
  m_sun_half_aperture :: real
  m_sky_rad_dataset :: tensor
  m_sky_params_dataset :: tensor
  m_to_world :: 'tr

record 'tr emitter =
  Base :: "'tr base_emitter"
  m_sun_dir :: vector3f
  m_sun_angles :: point2f
  m_active_record :: bool
  m_time :: date_time_record
  m_location :: location_record
  m_sky_params :: "real list"
  m_sky_radiance :: "real list"
  m_sky_sampling_w :: fval
  m_gaussian_distr :: "real list"
  m_spectral_distr :: wav_distr
  m_tgmm_datasets :: "real list"
  m_tgmm_tables :: "real list"

text \<open>
  What the class takes from outside: the base class (its constructor, its
  \<open>parameters_changed\<close>, \<open>sun_coordinates\<close> returning \<open>(theta, phi)\<close>, \<open>bilinear_interp\<close>),
  the transform operations, the spherical conversions, the content of the TGMM table file,
  the default-constructed records, the inputs of the balance estimate for a given state,
  the wavelength sampling of the distribution, and the compile-time parameters of the
  variant (\<open>is_array\<close>, \<open>variant_of\<close>, the grid constants, \<open>OneMinusEpsilon\<close>).
\<close>

record 'tr emitter_ext =
  base_constructor :: "properties \<Rightarrow> error + 'tr base_emitter"
  base_parameters_changed :: "string list \<Rightarrow> 'tr base_emitter \<Rightarrow> error + 'tr base_emitter"
  sun_coordinates :: "date_time_record \<Rightarrow> location_record \<Rightarrow> real \<times> real"
  bilinear_interp :: "tensor \<Rightarrow> real list \<Rightarrow> real \<Rightarrow> tensor"
  transform_apply :: "'tr \<Rightarrow> vector3f \<Rightarrow> vector3f"
  transform_inverse :: "'tr \<Rightarrow> 'tr"
  normalize :: "vector3f \<Rightarrow> vector3f"
  sph_to_dir :: "real \<Rightarrow> real \<Rightarrow> vector3f"
  dir_to_sph_of :: "vector3f \<Rightarrow> point2f"
  tgmm_tables_file :: "error + real list"
  default_time :: date_time_record
  default_location :: location_record
  ratio_inputs :: "'tr emitter \<Rightarrow> ratio_ext"
  sample_shifted :: "real \<Rightarrow> real list"
  sample_pdf :: "wav_distr \<Rightarrow> real list \<Rightarrow> bool \<Rightarrow> real list \<times> real list"
  is_array :: bool
  variant_of :: variant
  TURBITDITY_LVLS :: nat
  ELEVATION_CTRL_PTS :: nat
  OneMinusEpsilon :: real

text \<open>The coefficient update shared by the constructor and \<open>parameters_changed\<close>.\<close>

definition update_sky :: "'tr emitter_ext \<Rightarrow> real \<Rightarrow> 'tr emitter \<Rightarrow> error + 'tr emitter" where
  "update_sky ext eta st =
     (let temp_sky_params =
            bilinear_interp ext (m_sky_params_dataset (Base st)) (m_albedo (Base st))
              (m_turbidity (Base st))
      in and_then (in_bounds (bezier_interp (OneMinusEpsilon ext) temp_sky_params eta))
           (\<lambda>sky_params.
      let temp_sky_radiance =
            bilinear_interp ext (m_sky_rad_dataset (Base st)) (m_albedo (Base st))
              (m_turbidity (Base st))
      in and_then (in_bounds (bezier_interp (OneMinusEpsilon ext) temp_sky_radiance eta))
           (\<lambda>sky_radiance.
      Inr (st\<lparr>m_sky_params := sky_params, m_sky_radiance := sky_radiance\<rparr>))))"

definition update_tgmm :: "'tr emitter_ext \<Rightarrow> real \<Rightarrow> 'tr emitter \<Rightarrow> error + 'tr emitter" where
  "update_tgmm ext eta st =
     and_then (in_bounds (build_tgmm_distribution (TURBITDITY_LVLS ext) (ELEVATION_CTRL_PTS ext)
                 (m_tgmm_datasets st) (m_turbidity (Base st)) eta))
       (\<lambda>(tables, distr). Inr (st\<lparr>m_tgmm_tables := tables, m_gaussian_distr := distr\<rparr>))"

definition update_ratio :: "'tr emitter_ext \<Rightarrow> 'tr emitter \<Rightarrow> 'tr emitter" where
  "update_ratio ext st =
     (let (sampling_w, wav_dist) =
            estimate_sky_sun_ratio (is_array ext) (variant_of ext) (ratio_inputs ext st)
              (m_sky_scale (Base st)) (m_sun_scale (Base st)) (m_sun_half_aperture (Base st))
      in st\<lparr>m_sky_sampling_w := sampling_w, m_spectral_distr := wav_dist\<rparr>)"

text \<open>The first part of the constructor: the sun direction, from either source.\<close>

definition time_location_given :: "properties \<Rightarrow> bool" where
  "time_location_given props =
     (has_property props ''latitude'' \<or> has_property props ''longitude''
      \<or> has_property props ''timezone'' \<or> has_property props ''year''
      \<or> has_property props ''month'' \<or> has_property props ''day''
      \<or> has_property props ''hour'' \<or> has_property props ''minute''
      \<or> has_property props ''second'')"

definition both_given_message :: string where
  "both_given_message =
     ''Both the sun_direction and parameters for time/location were provided, both information cannot be given at the same time!''"

definition read_location :: "properties \<Rightarrow> error + location_record" where
  "read_location props =
     and_then (get_float props ''latitude'' 35.6894) (\<lambda>lat.
     and_then (get_float props ''longitude'' 139.6917) (\<lambda>lon.
     and_then (get_float props ''timezone'' 9) (\<lambda>tz.
     Inr \<lparr>latitude = lat, longitude = lon, timezone = tz\<rparr>)))"

definition read_time :: "properties \<Rightarrow> error + date_time_record" where
  "read_time props =
     and_then (get_int props ''year'' 2010) (\<lambda>y.
     and_then (get_int props ''month'' 7) (\<lambda>mo.
     and_then (get_int props ''day'' 10) (\<lambda>d.
     and_then (get_float props ''hour'' 15) (\<lambda>h.
     and_then (get_float props ''minute'' 0) (\<lambda>mi.
     and_then (get_float props ''second'' 0) (\<lambda>s.
     Inr \<lparr>year = y, month = mo, day = d, hour = h, minute = mi, second = s\<rparr>))))))"

definition init_sun ::
  "'tr emitter_ext \<Rightarrow> properties \<Rightarrow> 'tr base_emitter
     \<Rightarrow> error + (bool \<times> vector3f \<times> date_time_record \<times> location_record)" where
  "init_sun ext props base =
     (if has_property props ''sun_direction'' then
        (if time_location_given props then Inl (LogError both_given_message)
         else and_then (get_vector props ''sun_direction'') (\<lambda>v.
              Inr (False, normalize ext v, default_time ext, default_location ext)))
      else
        and_then (read_location props) (\<lambda>location.
        and_then (read_time props) (\<lambda>time.
        let (theta, phi) = sun_coordinates ext time location
        in Inr (True, transform_apply ext (m_to_world base) (sph_to_dir ext theta phi),
                time, location))))"

definition SunskyEmitter :: "'tr emitter_ext \<Rightarrow> properties \<Rightarrow> error + 'tr emitter" where
  "SunskyEmitter ext props =
     and_then (base_constructor ext props) (\<lambda>base.
     and_then (init_sun ext props base) (\<lambda>(active_record, sun_dir, time, location).
     let local_sun_dir = transform_apply ext (transform_inverse ext (m_to_world base)) sun_dir;
         sun_angles = dir_to_sph_of ext local_sun_dir;
         sun_angles = (snd sun_angles, fst sun_angles);
         sun_eta = 0.5 * pi - snd sun_angles
     in and_then (update_sky ext sun_eta
                    \<lparr>Base = base, m_sun_dir = sun_dir, m_sun_angles = sun_angles,
                     m_active_record = active_record, m_time = time, m_location = location,
                     m_sky_params = [], m_sky_radiance = [], m_sky_sampling_w = Finite 0,
                     m_gaussian_distr = [], m_spectral_distr = EmptyDistribution,
                     m_tgmm_datasets = [], m_tgmm_tables = []\<rparr>) (\<lambda>st.
        and_then (tgmm_tables_file ext) (\<lambda>tgmm.
        and_then (update_tgmm ext sun_eta (st\<lparr>m_tgmm_datasets := tgmm\<rparr>)) (\<lambda>st.
        Inr (update_ratio ext st))))))"

text \<open>
  Modelled from the spec: \<open>string::contains\<close> is declared outside the sources at hand; the
  change notification takes "the set of changed parameter names", so it is membership.
\<close>

definition CHANGED :: "string list \<Rightarrow> string \<Rightarrow> bool" where
  "CHANGED keys word = (word \<in> set keys)"

definition changed_atmosphere :: "string list \<Rightarrow> bool" where
  "changed_atmosphere keys = (keys = [] \<or> CHANGED keys ''albedo'' \<or> CHANGED keys ''turbidity'')"

definition changed_time_record :: "string list \<Rightarrow> bool \<Rightarrow> bool" where
  "changed_time_record keys active_record =
     (keys = [] \<or> (active_record \<and>
        (CHANGED keys ''timezone'' \<or> CHANGED keys ''year'' \<or> CHANGED keys ''day''
         \<or> CHANGED keys ''month'' \<or> CHANGED keys ''hour'' \<or> CHANGED keys ''minute''
         \<or> CHANGED keys ''second'' \<or> CHANGED keys ''latitude''
         \<or> CHANGED keys ''longitude'')))"

definition changed_sun_dir :: "string list \<Rightarrow> bool \<Rightarrow> bool" where
  "changed_sun_dir keys active_record =
     ((\<not> active_record \<and> CHANGED keys ''sun_direction'')
      \<or> changed_time_record keys active_record)"

definition update_sun_angles :: "'tr emitter_ext \<Rightarrow> string list \<Rightarrow> 'tr emitter \<Rightarrow> 'tr emitter" where
  "update_sun_angles ext keys st =
     (if changed_time_record keys (m_active_record st) then
        (let (theta, phi) = sun_coordinates ext (m_time st) (m_location st)
         in st\<lparr>m_sun_dir := transform_apply ext (m_to_world (Base st)) (sph_to_dir ext theta phi),
               m_sun_angles := (phi, theta)\<rparr>)
      else if changed_sun_dir keys (m_active_record st) then
        (let sun_angles = dir_to_sph_of ext
               (transform_apply ext (transform_inverse ext (m_to_world (Base st))) (m_sun_dir st))
         in st\<lparr>m_sun_angles := (snd sun_angles, fst sun_angles)\<rparr>)
      else st)"

definition parameters_changed ::
  "'tr emitter_ext \<Rightarrow> string list \<Rightarrow> 'tr emitter \<Rightarrow> error + 'tr emitter" where
  "parameters_changed ext keys st =
     and_then (base_parameters_changed ext keys (Base st)) (\<lambda>base.
     let st = st\<lparr>Base := base\<rparr>;
         st = update_sun_angles ext keys st;
         eta = 0.5 * pi - snd (m_sun_angles st)
     in and_then (if changed_sun_dir keys (m_active_record st) \<or> changed_atmosphere keys
                  then update_sky ext eta st else Inr st) (\<lambda>st.
        and_then (if changed_sun_dir keys (m_active_record st) \<or> CHANGED keys ''turbidity''
                  then update_tgmm ext eta st else Inr st) (\<lambda>st.
        Inr (update_ratio ext st))))"

text \<open>
  Wavelength sampling; \<open>dr::rcp\<close> of a density that may be 0 is a division with an explicit
  result.
\<close>

definition sample_wlgth ::
  "'tr emitter_ext \<Rightarrow> 'tr emitter \<Rightarrow> real \<Rightarrow> bool \<Rightarrow> error + (real list \<times> fval list)" where
  "sample_wlgth ext st sample active =
     (if variant_of ext = Spectral then
        (let w_sample = sample_shifted ext sample;
             (wavelengths, pdf) = sample_pdf ext (m_spectral_distr st) w_sample active
         in Inr (wavelengths, map (fdiv 1) pdf))
      else Inl (NotImplementedError ''sample_wavelengths''))"

section \<open>A small configuration\<close>

text \<open>
  A concrete instance of the parameters, on a grid of three turbidity levels and two
  elevation control points, used to instantiate the theorems.
\<close>

definition example_base :: "unit base_emitter" where
  "example_base =
     \<lparr>m_turbidity = 3, m_albedo = [3 / 10], m_sky_scale = 1, m_sun_scale = 1,
      m_sun_half_aperture = 1 / 200,
      m_sky_rad_dataset = \<lparr>shape0 = 6, array = [1, 2, 3, 4, 5, 6]\<rparr>,
      m_sky_params_dataset = \<lparr>shape0 = 6, array = [6, 5, 4, 3, 2, 1]\<rparr>,
      m_to_world = ()\<rparr>"

definition example_ext :: "unit emitter_ext" where
  "example_ext =
     \<lparr>base_constructor = (\<lambda>props. Inr example_base),
      base_parameters_changed = (\<lambda>keys b. Inr b),
      sun_coordinates = (\<lambda>t l. (pi / 4, 0)),
      bilinear_interp = (\<lambda>ds al tu. ds\<lparr>shape0 := 6\<rparr>),
      transform_apply = (\<lambda>tr v. v),
      transform_inverse = (\<lambda>tr. tr),
      normalize = (\<lambda>v. v),
      sph_to_dir = (\<lambda>theta phi. (sin theta * cos phi, sin theta * sin phi, cos theta)),
      dir_to_sph_of = (\<lambda>(x, y, z). (arccos z, 0)),
      tgmm_tables_file = Inr (map (\<lambda>i. if i mod 5 = 4 then 1 / 5 else 1) [0..<100]),
      default_time = \<lparr>year = 0, month = 0, day = 0, hour = 0, minute = 0, second = 0\<rparr>,
      default_location = \<lparr>latitude = 0, longitude = 0, timezone = 0\<rparr>,
      ratio_inputs = (\<lambda>st. \<lparr>luminance = sum_list, luminance_wav = (\<lambda>s w. sum_list s),
         get_area_ratio = (\<lambda>a. 1), SPEC_TO_RGB_SUN_CONV = 1, wavelengths = [],
         sky_radiance = [1, 1, 1], sun_radiance = [1, 0, 0], CHANNEL_COUNT = 3,
         range = (360, 830)\<rparr>),
      sample_shifted = (\<lambda>s. [s]),
      sample_pdf = (\<lambda>d w a. (w, [1])),
      is_array = False,
      variant_of = RGB,
      TURBITDITY_LVLS = 3,
      ELEVATION_CTRL_PTS = 2,
      OneMinusEpsilon = 1 - 1 / 2 ^ 24\<rparr>"

definition example_state :: "unit emitter" where
  "example_state =
     \<lparr>Base = example_base, m_sun_dir = (0, 0, 1), m_sun_angles = (0, 0),
      m_active_record = False,
      m_time = default_time example_ext, m_location = default_location example_ext,
      m_sky_params = [], m_sky_radiance = [], m_sky_sampling_w = Finite 0,
      m_gaussian_distr = [], m_spectral_distr = EmptyDistribution,
      m_tgmm_datasets = map (\<lambda>i. if i mod 5 = 4 then 1 / 5 else 1) [0..<100],
      m_tgmm_tables = []\<rparr>"

definition example_props :: properties where
  "example_props =
     (\<lambda>name. if name = ''sun_direction'' then Some (PVector (0, 0, 1))
             else if name = ''latitude'' then Some (PFloat 35) else None)"

definition example_direct_props :: properties where
  "example_direct_props =
     (\<lambda>name. if name = ''sun_direction'' then Some (PVector (0, 0, 1)) else None)"


section \<open>Index arithmetic of the mixture builder\<close>

lemma u32_le: "u32 n \<le> n"
  by (simp add: u32_def)

lemma u32_id: "n < 2 ^ 32 \<Longrightarrow> u32 n = n"
  by (simp add: u32_def)

lemma clip_bounds: "lo \<le> hi \<Longrightarrow> lo \<le> clip v lo hi \<and> clip v lo hi \<le> hi"
  by (simp add: clip_def min_def max_def)

lemma floor2int_le: "0 \<le> x \<Longrightarrow> x \<le> real n \<Longrightarrow> floor2int x \<le> n"
proof -
  assume "0 \<le> x" "x \<le> real n"
  then have "nat \<lfloor>x\<rfloor> \<le> n"
    by (metis floor_mono floor_of_nat nat_int nat_mono)
  then show ?thesis
    using u32_le [of "nat \<lfloor>x\<rfloor>"] by (simp add: floor2int_def)
qed

lemma eta_idx_low_le: "eta_idx_low E eta \<le> E - 1"
  unfolding eta_idx_low_def eta_idx_f_def
  by (rule floor2int_le) (use clip_bounds [of 0 "real (E - 1)"] in auto)

lemma t_idx_low_le: "t_idx_low TL turbidity \<le> (TL - 1) - 1"
  unfolding t_idx_low_def t_idx_f_def
  by (rule floor2int_le) (use clip_bounds [of 0 "real ((TL - 1) - 1)"] in auto)

lemma eta_idx_high_le: "eta_idx_high E eta \<le> E - 1"
  by (simp add: eta_idx_high_def)

lemma t_idx_high_le: "t_idx_high TL turbidity \<le> (TL - 1) - 1"
  by (simp add: t_idx_high_def)

lemma t_block_size_bound: "t_block_size TL ds * (TL - 1) \<le> length ds"
proof -
  have "t_block_size TL ds \<le> length ds div (TL - 1)"
    by (simp add: t_block_size_def u32_le)
  then have "t_block_size TL ds * (TL - 1) \<le> (length ds div (TL - 1)) * (TL - 1)"
    by (rule mult_le_mono1)
  also have "\<dots> \<le> length ds" by simp
  finally show ?thesis .
qed

lemma result_size_bound: "result_size TL E ds * E \<le> t_block_size TL ds"
  by (simp add: result_size_def)

lemma corner_in_bounds:
  assumes TL: "2 \<le> TL" and E: "1 \<le> E"
    and t: "t \<le> (TL - 1) - 1" and e: "e \<le> E - 1"
  shows "t * t_block_size TL ds + e * result_size TL E ds + result_size TL E ds \<le> length ds"
proof -
  let ?tbs = "t_block_size TL ds" and ?rs = "result_size TL E ds"
  have "e * ?rs + ?rs = (e + 1) * ?rs" by simp
  also have "\<dots> \<le> E * ?rs" using e E by (intro mult_le_mono1) simp
  also have "\<dots> \<le> ?tbs" using result_size_bound [of TL E ds] by (simp add: mult.commute)
  finally have inner: "e * ?rs + ?rs \<le> ?tbs" .
  have "t * ?tbs + ?tbs = (t + 1) * ?tbs" by simp
  also have "\<dots> \<le> (TL - 1) * ?tbs" using t TL by (intro mult_le_mono1) simp
  also have "\<dots> \<le> length ds" using t_block_size_bound [of TL ds] by (simp add: mult.commute)
  finally have "t * ?tbs + ?tbs \<le> length ds" .
  with inner show ?thesis by simp
qed

lemma corner_index_le: "u32 (u32 (t * tbs) + u32 (e * rs)) \<le> t * tbs + e * rs"
  using u32_le [of "u32 (t * tbs) + u32 (e * rs)"] u32_le [of "t * tbs"] u32_le [of "e * rs"]
  by linarith

lemma gather_Some_iff: "gather src idx \<noteq> None \<longleftrightarrow> (\<forall>i \<in> set idx. i < length src)"
  by (simp add: gather_def list_all_iff)


lemma gather_slice:
  assumes "base + n \<le> length src" and "length src < 2 ^ 32"
  shows "gather src (map (\<lambda>p. u32 (base + p)) (arange n)) = Some (take n (drop base src))"
proof -
  have in_range: "\<And>p. p < n \<Longrightarrow> u32 (base + p) = base + p"
    using assms by (intro u32_id) linarith
  have idx: "map (\<lambda>p. u32 (base + p)) (arange n) = map (\<lambda>p. base + p) [0..<n]"
    by (simp add: arange_def in_range)
  have all: "list_all (\<lambda>i. i < length src) (map (\<lambda>p. base + p) [0..<n])"
    using assms by (simp add: list_all_iff)
  have "map (\<lambda>i. src ! i) (map (\<lambda>p. base + p) [0..<n]) = take n (drop base src)"
    using assms by (intro nth_equalityI) auto
  with idx all show ?thesis by (simp add: gather_def)
qed

lemma fold_update_block:
  "base + length vals \<le> length t \<Longrightarrow>
   fold (\<lambda>(i, v) t. t[i := v]) (zip (map (\<lambda>p. base + p) [0..<length vals]) vals) t
     = take base t @ vals @ drop (base + length vals) t"
proof (induction vals arbitrary: base t)
  case Nil
  then show ?case by simp
next
  case (Cons v vs)
  have upt: "[0..<Suc (length vs)] = 0 # map Suc [0..<length vs]"
    by (simp add: upt_conv_Cons map_Suc_upt del: upt_Suc)
  have step: "fold (\<lambda>(i, v) t. t[i := v])
                (zip (map (\<lambda>p. Suc base + p) [0..<length vs]) vs) (t[base := v])
              = take (Suc base) (t[base := v]) @ vs @ drop (Suc base + length vs) (t[base := v])"
    using Cons.prems by (intro Cons.IH) simp
  have "take (Suc base) (t[base := v]) = take base t @ [v]"
    using Cons.prems by (simp add: take_Suc_conv_app_nth)
  with step show ?case
    using Cons.prems by (simp add: upt comp_def del: upt_Suc)
qed

lemma scatter_block:
  assumes "base + length vals \<le> length t" and "length t < 2 ^ 32" and "n = length vals"
  shows "scatter t vals (map (\<lambda>p. u32 (base + p)) (arange n))
           = Some (take base t @ vals @ drop (base + length vals) t)"
proof -
  have in_range: "\<And>p. p < n \<Longrightarrow> u32 (base + p) = base + p"
    using assms by (intro u32_id) linarith
  have idx: "map (\<lambda>p. u32 (base + p)) (arange n) = map (\<lambda>p. base + p) [0..<length vals]"
    using assms(3) by (simp add: arange_def in_range)
  have all: "list_all (\<lambda>i. i < length t) (map (\<lambda>p. base + p) [0..<length vals])"
    using assms by (simp add: list_all_iff)
  show ?thesis
    unfolding scatter_def idx using all fold_update_block [OF assms(1)] by simp
qed

lemma apply_lerp_factor_step:
  "apply_lerp_factor f k params =
     (if k < 5 then
        (if 5 * k + 4 < length params
         then apply_lerp_factor f (Suc k) (params[5 * k + 4 := params ! (5 * k + 4) * f])
         else None)
      else Some params)"
proof (cases "k < 5")
  case True
  then have "u32 (k * 5 + 4) = 5 * k + 4"
    by (simp add: u32_def)
  with True show ?thesis
    by (subst apply_lerp_factor.simps)
       (simp add: TGMM_COMPONENTS_def TGMM_GAUSSIAN_PARAMS_def Let_def)
next
  case False
  then show ?thesis
    by (subst apply_lerp_factor.simps) (simp add: TGMM_COMPONENTS_def)
qed

lemma apply_lerp_factor_25:
  assumes "length params = 25"
  shows "apply_lerp_factor f 0 params =
           Some (params[4 := params ! 4 * f, 9 := params ! 9 * f, 14 := params ! 14 * f,
                        19 := params ! 19 * f, 24 := params ! 24 * f])"
  using assms
  by (simp add: apply_lerp_factor_step [of _ 0] apply_lerp_factor_step [of _ "Suc 0"]
      apply_lerp_factor_step [of _ "Suc (Suc 0)"]
      apply_lerp_factor_step [of _ "Suc (Suc (Suc 0))"]
      apply_lerp_factor_step [of _ "Suc (Suc (Suc (Suc 0)))"]
      apply_lerp_factor_step [of _ "Suc (Suc (Suc (Suc (Suc 0))))"])

lemma tgmm_indices_length: "length (tgmm_indices TL E ds turbidity eta) = 4"
  by (simp add: tgmm_indices_def Let_def)

lemma lerp_factors_length: "length (lerp_factors TL E turbidity eta) = 4"
  by (simp add: lerp_factors_def Let_def)

lemma lerp_factors_sum: "sum_list (lerp_factors TL E turbidity eta) = 1"
  by (simp add: lerp_factors_def Let_def algebra_simps)

lemma tgmm_indices_in_bounds:
  assumes "2 \<le> TL" and "1 \<le> E" and "k < 4"
  shows "tgmm_indices TL E ds turbidity eta ! k + result_size TL E ds \<le> length ds"
proof -
  let ?tbs = "t_block_size TL ds" and ?rs = "result_size TL E ds"
  have ex: "\<exists>t e. t \<le> (TL - 1) - 1 \<and> e \<le> E - 1 \<and>
              tgmm_indices TL E ds turbidity eta ! k
                = u32 (u32 (t * ?tbs) + u32 (e * ?rs))"
  proof -
    from \<open>k < 4\<close> consider "k = 0" | "k = 1" | "k = 2" | "k = 3" by linarith
    then show ?thesis
    proof cases
      case 1
      then show ?thesis
        using t_idx_low_le [of TL turbidity] eta_idx_low_le [of E eta]
        by (auto simp: tgmm_indices_def Let_def)
    next
      case 2
      then show ?thesis
        using t_idx_low_le [of TL turbidity] eta_idx_high_le [of E eta]
        by (auto simp: tgmm_indices_def Let_def)
    next
      case 3
      then show ?thesis
        using t_idx_high_le [of TL turbidity] eta_idx_low_le [of E eta]
        by (auto simp: tgmm_indices_def Let_def)
    next
      case 4
      then show ?thesis
        using t_idx_high_le [of TL turbidity] eta_idx_high_le [of E eta]
        by (auto simp: tgmm_indices_def Let_def)
    qed
  qed
  then obtain t e where t: "t \<le> (TL - 1) - 1" and e: "e \<le> E - 1"
    and idx: "tgmm_indices TL E ds turbidity eta ! k = u32 (u32 (t * ?tbs) + u32 (e * ?rs))"
    by blast
  have "tgmm_indices TL E ds turbidity eta ! k \<le> t * ?tbs + e * ?rs"
    unfolding idx by (rule corner_index_le)
  with corner_in_bounds [OF assms(1,2) t e, of ds] show ?thesis by linarith
qed

lemma result_size_wellformed:
  assumes "2 \<le> TL" and "1 \<le> E" and "length ds = (TL - 1) * E * n" and "length ds < 2 ^ 32"
  shows "result_size TL E ds = n"
proof -
  have "length ds div (TL - 1) = E * n"
    using assms by simp
  moreover have "E * n < 2 ^ 32"
  proof -
    have "1 \<le> TL - 1" using assms(1) by linarith
    then have "1 * (E * n) \<le> (TL - 1) * (E * n)" by (rule mult_le_mono1)
    also have "\<dots> = length ds" using assms(3) by (simp add: mult.assoc)
    finally show ?thesis using assms(4) by linarith
  qed
  ultimately have "t_block_size TL ds = E * n"
    by (simp add: t_block_size_def u32_id)
  with assms(2) show ?thesis by (simp add: result_size_def)
qed

lemma length_scaled: "length (scaled f p) = length p"
  by (simp add: scaled_def)

lemma scaled_weight:
  "length p = 25 \<Longrightarrow> j < 5 \<Longrightarrow> scaled f p ! (5 * j + 4) = p ! (5 * j + 4) * f"
proof -
  assume len: "length p = 25" and "j < 5"
  then consider "j = 0" | "j = 1" | "j = 2" | "j = 3" | "j = 4" by linarith
  then show ?thesis
    using len by cases (simp_all add: scaled_def)
qed

lemma mixture_loop_step:
  assumes "k < 4" and "indices ! k + 25 \<le> length ds" and "length ds < 2 ^ 32"
    and "length dp = 100"
  shows "mixture_loop ds indices factors 25 k dp =
           mixture_loop ds indices factors 25 (k + 1)
             (take (k * 25) dp
              @ scaled (factors ! k) (take 25 (drop (indices ! k) ds))
              @ drop (k * 25 + 25) dp)"
proof -
  let ?blk = "take 25 (drop (indices ! k) ds)"
  have g: "gather ds (map (\<lambda>p. u32 (indices ! k + p)) (arange 25)) = Some ?blk"
    using assms by (intro gather_slice)
  have len: "length ?blk = 25" using assms by simp
  have a: "apply_lerp_factor (factors ! k) 0 ?blk = Some (scaled (factors ! k) ?blk)"
    unfolding scaled_def by (rule apply_lerp_factor_25 [OF len])
  have k25: "u32 (k * 25) = k * 25"
    using assms(1) by (intro u32_id) simp
  have s: "scatter dp (scaled (factors ! k) ?blk) (map (\<lambda>p. u32 (k * 25 + p)) (arange 25))
             = Some (take (k * 25) dp @ scaled (factors ! k) ?blk
                     @ drop (k * 25 + length (scaled (factors ! k) ?blk)) dp)"
    using assms(1,4) len by (intro scatter_block) (simp_all add: length_scaled)
  show ?thesis
    using assms(1)
    by (subst mixture_loop.simps) (simp add: g a s k25 length_scaled len del: length_take)
qed

lemma mixture_loop_done: "mixture_loop ds indices factors rs 4 dp = Some dp"
  by (subst mixture_loop.simps) simp

lemma mixture_loop_25:
  assumes "\<forall>k<4. indices ! k + 25 \<le> length ds" and "length ds < 2 ^ 32"
  shows "mixture_loop ds indices factors 25 0 (replicate 100 0) =
           Some (scaled (factors ! 0) (take 25 (drop (indices ! 0) ds))
               @ scaled (factors ! 1) (take 25 (drop (indices ! 1) ds))
               @ scaled (factors ! 2) (take 25 (drop (indices ! 2) ds))
               @ scaled (factors ! 3) (take 25 (drop (indices ! 3) ds)))"
proof -
  define B where "B k = scaled (factors ! k) (take 25 (drop (indices ! k) ds))" for k
  have i: "indices ! 0 + 25 \<le> length ds" "indices ! 1 + 25 \<le> length ds"
    "indices ! 2 + 25 \<le> length ds" "indices ! 3 + 25 \<le> length ds"
    using assms(1) by simp_all
  have lenB: "length (B 0) = 25" "length (B 1) = 25" "length (B 2) = 25" "length (B 3) = 25"
    using i by (simp_all add: B_def length_scaled)
  have "mixture_loop ds indices factors 25 0 (replicate 100 0)
          = mixture_loop ds indices factors 25 1 (B 0 @ replicate 75 0)"
    using mixture_loop_step [of 0 indices ds "replicate 100 0" factors] i(1) assms(2)
    by (simp add: B_def del: One_nat_def)
  also have "\<dots> = mixture_loop ds indices factors 25 2 (B 0 @ B 1 @ replicate 50 0)"
    using mixture_loop_step [of 1 indices ds "B 0 @ replicate 75 0" factors] i(2) assms(2) lenB
    by (simp add: B_def [of 1, symmetric] del: One_nat_def)
  also have "\<dots> = mixture_loop ds indices factors 25 3 (B 0 @ B 1 @ B 2 @ replicate 25 0)"
    using mixture_loop_step [of 2 indices ds "B 0 @ B 1 @ replicate 50 0" factors]
      i(3) assms(2) lenB
    by (simp add: B_def [of 2, symmetric] del: One_nat_def)
  also have "\<dots> = mixture_loop ds indices factors 25 4 (B 0 @ B 1 @ B 2 @ B 3)"
    using mixture_loop_step [of 3 indices ds "B 0 @ B 1 @ B 2 @ replicate 25 0" factors]
      i(4) assms(2) lenB
    by (simp add: B_def [of 3, symmetric] del: One_nat_def)
  finally show ?thesis by (simp add: mixture_loop_done B_def)
qed

lemma gather_in_bounds:
  assumes "base + n \<le> length src"
  shows "gather src (map (\<lambda>p. u32 (base + p)) (arange n)) \<noteq> None"
proof -
  have "u32 (base + p) < length src" if "p < n" for p
    using that assms u32_le [of "base + p"] by linarith
  then show ?thesis
    by (simp add: gather_def list_all_iff arange_def)
qed

lemma weights_gather:
  assumes "length tables = 100"
  shows "gather tables
           (map (\<lambda>i. u32 (u32 (TGMM_GAUSSIAN_PARAMS * i) + (TGMM_GAUSSIAN_PARAMS - 1)))
              (arange (4 * TGMM_COMPONENTS)))
         = Some (map (\<lambda>i. tables ! (5 * i + 4)) [0..<20])"
proof -
  have "u32 (u32 (5 * i) + 4) = 5 * i + 4" if "i < 20" for i
    using that by (simp add: u32_def)
  then have idx: "map (\<lambda>i. u32 (u32 (TGMM_GAUSSIAN_PARAMS * i) + (TGMM_GAUSSIAN_PARAMS - 1)))
              (arange (4 * TGMM_COMPONENTS)) = map (\<lambda>i. 5 * i + 4) [0..<20]"
    by (simp add: TGMM_GAUSSIAN_PARAMS_def TGMM_COMPONENTS_def arange_def)
  have "list_all (\<lambda>i. i < length tables) (map (\<lambda>i. 5 * i + 4) [0..<20])"
    using assms by (simp add: list_all_iff)
  then show ?thesis
    unfolding idx gather_def by (simp add: comp_def)
qed

lemma build_tgmm_distribution_wellformed:
  fixes turbidity eta :: real
  assumes "2 \<le> TL" and "1 \<le> E"
    and "length ds = (TL - 1) * E * (TGMM_COMPONENTS * TGMM_GAUSSIAN_PARAMS)"
    and "length ds < 2 ^ 32"
  defines "ix \<equiv> tgmm_indices TL E ds turbidity eta"
    and "fs \<equiv> lerp_factors TL E turbidity eta"
  defines "tables \<equiv> scaled (fs ! 0) (take 25 (drop (ix ! 0) ds))
                   @ scaled (fs ! 1) (take 25 (drop (ix ! 1) ds))
                   @ scaled (fs ! 2) (take 25 (drop (ix ! 2) ds))
                   @ scaled (fs ! 3) (take 25 (drop (ix ! 3) ds))"
  shows "build_tgmm_distribution TL E ds turbidity eta
           = Some (tables, map (\<lambda>i. tables ! (5 * i + 4)) [0..<20])"
    and "length tables = 100"
proof -
  have rs: "result_size TL E ds = 25"
    using result_size_wellformed [OF assms(1,2) _ assms(4), of 25] assms(3)
    by (simp add: TGMM_COMPONENTS_def TGMM_GAUSSIAN_PARAMS_def)
  have bounds: "\<forall>k<4. ix ! k + 25 \<le> length ds"
    using tgmm_indices_in_bounds [OF assms(1,2), of _ ds turbidity eta]
    by (simp add: rs ix_def)
  then have b: "ix ! 0 + 25 \<le> length ds" "ix ! 1 + 25 \<le> length ds"
    "ix ! 2 + 25 \<le> length ds" "ix ! 3 + 25 \<le> length ds"
    by simp_all
  show len: "length tables = 100"
    using b by (simp add: tables_def length_scaled)
  have loop: "mixture_loop ds ix fs 25 0 (replicate 100 0) = Some tables"
    unfolding tables_def by (rule mixture_loop_25 [OF bounds assms(4)])
  have "u32 (4 * 25) = 100" by (simp add: u32_def)
  with loop weights_gather [OF len]
  show "build_tgmm_distribution TL E ds turbidity eta
           = Some (tables, map (\<lambda>i. tables ! (5 * i + 4)) [0..<20])"
    by (simp add: build_tgmm_distribution_def rs ix_def [symmetric] fs_def [symmetric])
qed

lemma corner_weight_sum_unfold:
  "corner_weight_sum ds base = (\<Sum>j<5. ds ! (base + (5 * j + 4)))"
  by (simp add: corner_weight_sum_def TGMM_COMPONENTS_def TGMM_GAUSSIAN_PARAMS_def mult.commute)

lemma scaled_block_weight:
  assumes "base + 25 \<le> length ds" and "j < 5"
  shows "scaled f (take 25 (drop base ds)) ! (5 * j + 4) = f * ds ! (base + (5 * j + 4))"
proof -
  have "length (take 25 (drop base ds)) = 25" using assms(1) by simp
  then have "scaled f (take 25 (drop base ds)) ! (5 * j + 4)
               = take 25 (drop base ds) ! (5 * j + 4) * f"
    using assms(2) by (rule scaled_weight)
  also have "take 25 (drop base ds) ! (5 * j + 4) = ds ! (base + (5 * j + 4))"
    using assms by simp
  finally show ?thesis by (simp add: mult.commute)
qed

lemma scaled_other:
  assumes "n mod 5 \<noteq> 4"
  shows "scaled f p ! n = p ! n"
proof -
  from assms have "n \<noteq> 4" "n \<noteq> 9" "n \<noteq> 14" "n \<noteq> 19" "n \<noteq> 24" by auto
  then show ?thesis by (simp add: scaled_def)
qed

lemma combined_table:
  fixes turbidity eta :: real
  assumes "2 \<le> TL" and "1 \<le> E"
    and "length ds = (TL - 1) * E * (TGMM_COMPONENTS * TGMM_GAUSSIAN_PARAMS)"
    and "length ds < 2 ^ 32"
  defines "ix \<equiv> tgmm_indices TL E ds turbidity eta"
    and "fs \<equiv> lerp_factors TL E turbidity eta"
  shows "\<exists>tables weights.
           build_tgmm_distribution TL E ds turbidity eta = Some (tables, weights)
           \<and> length tables = 100 \<and> length weights = 20
           \<and> (\<forall>i<20. weights ! i = tables ! (5 * i + 4))
           \<and> (\<forall>k<4. \<forall>j<5. weights ! (5 * k + j) = fs ! k * ds ! (ix ! k + (5 * j + 4)))
           \<and> (\<forall>k<4. \<forall>n<25. n mod 5 \<noteq> 4 \<longrightarrow> tables ! (25 * k + n) = ds ! (ix ! k + n))"
proof -
  define B where "B k = scaled (fs ! k) (take 25 (drop (ix ! k) ds))" for k
  define tables where "tables = B 0 @ B 1 @ B 2 @ B 3"
  define weights where "weights = map (\<lambda>i. tables ! (5 * i + 4)) [0..<20]"
  have build: "build_tgmm_distribution TL E ds turbidity eta = Some (tables, weights)"
    and len: "length tables = 100"
    using build_tgmm_distribution_wellformed [OF assms(1-4), of turbidity eta]
    by (simp_all add: tables_def weights_def B_def ix_def fs_def)
  have rs: "result_size TL E ds = 25"
    using result_size_wellformed [OF assms(1,2) _ assms(4), of 25] assms(3)
    by (simp add: TGMM_COMPONENTS_def TGMM_GAUSSIAN_PARAMS_def)
  have bounds: "ix ! k + 25 \<le> length ds" if "k < 4" for k
    using tgmm_indices_in_bounds [OF assms(1,2) that, of ds turbidity eta]
    by (simp add: rs ix_def)
  have lenB: "length (B k) = 25" if "k < 4" for k
    using bounds [OF that] by (simp add: B_def length_scaled)
  have Bw: "B k ! (5 * j + 4) = fs ! k * ds ! (ix ! k + (5 * j + 4))" if "k < 4" "j < 5" for k j
    unfolding B_def using bounds [OF that(1)] that(2) by (rule scaled_block_weight)
  have Bo: "B k ! n = ds ! (ix ! k + n)" if "k < 4" "n < 25" "n mod 5 \<noteq> 4" for k n
  proof -
    have "B k ! n = take 25 (drop (ix ! k) ds) ! n"
      unfolding B_def using that(3) by (rule scaled_other)
    also have "\<dots> = ds ! (ix ! k + n)"
      using bounds [OF that(1)] that(2) by simp
    finally show ?thesis .
  qed
  have tab: "tables ! (25 * k + n) = B k ! n" if "k < 4" "n < 25" for k n
  proof -
    from that(1) consider "k = 0" | "k = 1" | "k = 2" | "k = 3" by linarith
    then show ?thesis
      using that(2) lenB [of 0] lenB [of 1] lenB [of 2] lenB [of 3]
      by cases (simp_all add: tables_def nth_append)
  qed
  have w: "weights ! (5 * k + j) = fs ! k * ds ! (ix ! k + (5 * j + 4))"
    if "k < 4" "j < 5" for k j
  proof -
    have "5 * k + j < 20" using that by linarith
    then have "weights ! (5 * k + j) = tables ! (5 * (5 * k + j) + 4)"
      by (simp add: weights_def)
    also have "5 * (5 * k + j) + 4 = 25 * k + (5 * j + 4)" by simp
    also have "tables ! (25 * k + (5 * j + 4)) = B k ! (5 * j + 4)"
      using that by (intro tab) simp_all
    finally show ?thesis using Bw [OF that] by simp
  qed
  have o: "\<forall>k<4. \<forall>n<25. n mod 5 \<noteq> 4 \<longrightarrow> tables ! (25 * k + n) = ds ! (ix ! k + n)"
    using tab Bo by simp
  have "\<forall>i<20. weights ! i = tables ! (5 * i + 4)"
    by (simp add: weights_def)
  moreover have "length weights = 20" by (simp add: weights_def)
  ultimately show ?thesis using build len w o by blast
qed

lemma lerp_factors_products:
  "lerp_factors TL E turbidity eta =
     [(1 - t_rem TL turbidity) * (1 - eta_rem E eta),
      (1 - t_rem TL turbidity) * eta_rem E eta,
      t_rem TL turbidity * (1 - eta_rem E eta),
      t_rem TL turbidity * eta_rem E eta]"
  by (simp add: lerp_factors_def Let_def)

lemma sum_list_20:
  fixes ws :: "real list"
  assumes "length ws = 20"
  shows "sum_list ws = (\<Sum>k<4. \<Sum>j<5. ws ! (5 * k + j))"
proof -
  have "sum_list ws = (\<Sum>i<20. ws ! i)"
    using assms by (simp add: sum_list_sum_nth atLeast0LessThan)
  also have "\<dots> = (\<Sum>k<4. \<Sum>j<5. ws ! (5 * k + j))"
    by (simp add: eval_nat_numeral lessThan_Suc algebra_simps)
  finally show ?thesis .
qed


text \<open>
  Claim C1. For every turbidity and elevation, if the weights of each of the four corner
  mixtures read from the dataset sum to 1, then the component weights of the combined table
  returned by \<open>build_tgmm_distribution\<close> sum to 1: the four bilinear factors are the
  products of the remainders and sum to 1, the weight fields of corner \<open>k\<close> in the table
  are the dataset's weights multiplied by factor \<open>k\<close>, every other field is copied
  unchanged, and the weights handed to the discrete distribution are the weight fields of
  the table.
\<close>

theorem combined_weights_sum_to_one:
  fixes turbidity eta :: real
  assumes "2 \<le> lvls" and "1 \<le> pts"
    and "length dataset_buf =
           (lvls - 1) * pts * (TGMM_COMPONENTS * TGMM_GAUSSIAN_PARAMS)"
    and "length dataset_buf < 2 ^ 32"
    and "\<forall>k<4. corner_weight_sum dataset_buf
                 (tgmm_indices lvls pts dataset_buf turbidity eta ! k) = 1"
  shows "\<exists>tables weights.
           build_tgmm_distribution lvls pts dataset_buf turbidity eta
             = Some (tables, weights)
           \<and> lerp_factors lvls pts turbidity eta
               = [(1 - t_rem lvls turbidity) * (1 - eta_rem pts eta),
                  (1 - t_rem lvls turbidity) * eta_rem pts eta,
                  t_rem lvls turbidity * (1 - eta_rem pts eta),
                  t_rem lvls turbidity * eta_rem pts eta]
           \<and> sum_list (lerp_factors lvls pts turbidity eta) = 1
           \<and> length tables = 4 * (TGMM_COMPONENTS * TGMM_GAUSSIAN_PARAMS)
           \<and> (\<forall>k<4. \<forall>j<TGMM_COMPONENTS.
                 tables ! (TGMM_COMPONENTS * TGMM_GAUSSIAN_PARAMS * k
                           + (TGMM_GAUSSIAN_PARAMS * j + (TGMM_GAUSSIAN_PARAMS - 1)))
                   = lerp_factors lvls pts turbidity eta ! k
                     * dataset_buf
                         ! (tgmm_indices lvls pts dataset_buf turbidity eta ! k
                            + (TGMM_GAUSSIAN_PARAMS * j + (TGMM_GAUSSIAN_PARAMS - 1))))
           \<and> (\<forall>k<4. \<forall>n<TGMM_COMPONENTS * TGMM_GAUSSIAN_PARAMS.
                 n mod TGMM_GAUSSIAN_PARAMS \<noteq> TGMM_GAUSSIAN_PARAMS - 1 \<longrightarrow>
                 tables ! (TGMM_COMPONENTS * TGMM_GAUSSIAN_PARAMS * k + n)
                   = dataset_buf ! (tgmm_indices lvls pts dataset_buf turbidity eta ! k + n))
           \<and> (\<Sum>i<4 * TGMM_COMPONENTS.
                 tables ! (TGMM_GAUSSIAN_PARAMS * i + (TGMM_GAUSSIAN_PARAMS - 1))) = 1
           \<and> (\<forall>k<4. \<forall>j<TGMM_COMPONENTS.
                 weights ! (TGMM_COMPONENTS * k + j)
                   = lerp_factors lvls pts turbidity eta ! k
                     * dataset_buf
                         ! (tgmm_indices lvls pts dataset_buf
                              turbidity eta ! k
                            + (TGMM_GAUSSIAN_PARAMS * j + (TGMM_GAUSSIAN_PARAMS - 1))))
           \<and> length weights = 4 * TGMM_COMPONENTS
           \<and> (\<forall>i<4 * TGMM_COMPONENTS.
                 weights ! i = tables ! (TGMM_GAUSSIAN_PARAMS * i + (TGMM_GAUSSIAN_PARAMS - 1)))
           \<and> sum_list weights = 1"
proof -
  let ?ix = "tgmm_indices lvls pts dataset_buf turbidity eta"
  let ?fs = "lerp_factors lvls pts turbidity eta"
  from combined_table [OF assms(1-4), of turbidity eta]
  obtain tables weights where
    build: "build_tgmm_distribution lvls pts dataset_buf turbidity eta
              = Some (tables, weights)"
    and lent: "length tables = 100"
    and len: "length weights = 20"
    and wt: "\<And>i. i < 20 \<Longrightarrow> weights ! i = tables ! (5 * i + 4)"
    and w: "\<And>k j. k < 4 \<Longrightarrow> j < 5 \<Longrightarrow>
              weights ! (5 * k + j) = ?fs ! k * dataset_buf ! (?ix ! k + (5 * j + 4))"
    and o: "\<And>k n. k < 4 \<Longrightarrow> n < 25 \<Longrightarrow> n mod 5 \<noteq> 4 \<Longrightarrow>
              tables ! (25 * k + n) = dataset_buf ! (?ix ! k + n)"
    by blast
  have tw: "tables ! (25 * k + (5 * j + 4)) = ?fs ! k * dataset_buf ! (?ix ! k + (5 * j + 4))"
    if "k < 4" "j < 5" for k j
  proof -
    have "5 * k + j < 20" using that by linarith
    from wt [OF this] have "weights ! (5 * k + j) = tables ! (25 * k + (5 * j + 4))"
      by (simp add: algebra_simps)
    with w [OF that] show ?thesis by simp
  qed
  have "sum_list weights = (\<Sum>k<4. \<Sum>j<5. weights ! (5 * k + j))"
    by (rule sum_list_20 [OF len])
  also have "\<dots> = (\<Sum>k<4. \<Sum>j<5. ?fs ! k * dataset_buf ! (?ix ! k + (5 * j + 4)))"
    by (intro sum.cong refl) (simp add: w)
  also have "\<dots> = (\<Sum>k<4. ?fs ! k * corner_weight_sum dataset_buf (?ix ! k))"
    by (simp add: corner_weight_sum_unfold sum_distrib_left)
  also have "\<dots> = (\<Sum>k<4. ?fs ! k)"
    using assms(5) by (intro sum.cong refl) simp
  also have "\<dots> = sum_list ?fs"
    using lerp_factors_length [of lvls pts turbidity eta]
    by (simp add: sum_list_sum_nth atLeast0LessThan)
  also have "\<dots> = 1" by (rule lerp_factors_sum)
  finally have total: "sum_list weights = 1" .
  have "(\<Sum>i<20. tables ! (5 * i + 4)) = (\<Sum>i<20. weights ! i)"
    by (intro sum.cong refl) (simp add: wt)
  also have "\<dots> = sum_list weights"
    using len by (simp add: sum_list_sum_nth atLeast0LessThan)
  finally have ttotal: "(\<Sum>i<20. tables ! (5 * i + 4)) = 1"
    using total by simp
  have c1: "\<forall>k<4. \<forall>j<5. tables ! (25 * k + (5 * j + 4))
              = ?fs ! k * dataset_buf ! (?ix ! k + (5 * j + 4))"
    using tw by blast
  have c2: "\<forall>k<4. \<forall>n<25. n mod 5 \<noteq> 4 \<longrightarrow>
              tables ! (25 * k + n) = dataset_buf ! (?ix ! k + n)"
    using o by blast
  have c3: "\<forall>k<4. \<forall>j<5. weights ! (5 * k + j)
              = ?fs ! k * dataset_buf ! (?ix ! k + (5 * j + 4))"
    using w by blast
  have c4: "\<forall>i<20. weights ! i = tables ! (5 * i + 4)"
    using wt by blast
  show ?thesis
    unfolding TGMM_COMPONENTS_def TGMM_GAUSSIAN_PARAMS_def
    using build lent len total ttotal c1 c2 c3 c4
      lerp_factors_sum [of lvls pts turbidity eta]
      lerp_factors_products [of lvls pts turbidity eta]
    by (intro exI [of _ tables] exI [of _ weights]) simp
qed

lemma witness_indices:
  "length ds = 100 \<Longrightarrow> tgmm_indices 3 2 ds (5 / 2) (7 * pi / 360) = [0, 25, 50, 75]"
  by (simp add: tgmm_indices_def t_idx_low_def t_idx_high_def eta_idx_low_def eta_idx_high_def
      t_idx_f_def eta_idx_f_def clip_def rad_to_deg_def floor2int_def u32_def t_block_size_def
      result_size_def Let_def)

theorem combined_weights_sum_to_one_witness:
  "length (map (\<lambda>i. if i mod 5 = 4 then 1 / 5 else 1 :: real) [0..<100])
     = (3 - 1) * 2 * (TGMM_COMPONENTS * TGMM_GAUSSIAN_PARAMS)
   \<and> corner_weight_sum (map (\<lambda>i. if i mod 5 = 4 then 1 / 5 else 1) [0..<100])
          (tgmm_indices 3 2 (map (\<lambda>i. if i mod 5 = 4 then 1 / 5 else 1) [0..<100])
             (5 / 2) (7 * pi / 360) ! 0) = 1
   \<and> corner_weight_sum (map (\<lambda>i. if i mod 5 = 4 then 1 / 5 else 1) [0..<100])
          (tgmm_indices 3 2 (map (\<lambda>i. if i mod 5 = 4 then 1 / 5 else 1) [0..<100])
             (5 / 2) (7 * pi / 360) ! 1) = 1
   \<and> corner_weight_sum (map (\<lambda>i. if i mod 5 = 4 then 1 / 5 else 1) [0..<100])
          (tgmm_indices 3 2 (map (\<lambda>i. if i mod 5 = 4 then 1 / 5 else 1) [0..<100])
             (5 / 2) (7 * pi / 360) ! 2) = 1
   \<and> corner_weight_sum (map (\<lambda>i. if i mod 5 = 4 then 1 / 5 else 1) [0..<100])
          (tgmm_indices 3 2 (map (\<lambda>i. if i mod 5 = 4 then 1 / 5 else 1) [0..<100])
             (5 / 2) (7 * pi / 360) ! 3) = 1
   \<and> (\<exists>tables weights.
         build_tgmm_distribution 3 2 (map (\<lambda>i. if i mod 5 = 4 then 1 / 5 else 1) [0..<100])
           (5 / 2) (7 * pi / 360) = Some (tables, weights)
         \<and> (\<Sum>i<4 * TGMM_COMPONENTS.
               tables ! (TGMM_GAUSSIAN_PARAMS * i + (TGMM_GAUSSIAN_PARAMS - 1))) = 1
         \<and> sum_list weights = 1)"
proof -
  define ds where "ds = map (\<lambda>i. if i mod 5 = 4 then 1 / 5 else 1 :: real) [0..<100]"
  have len100: "length ds = 100" by (simp add: ds_def del: upt_rec_numeral)
  have len: "length ds = (3 - 1) * 2 * (TGMM_COMPONENTS * TGMM_GAUSSIAN_PARAMS)"
    by (simp add: len100 TGMM_COMPONENTS_def TGMM_GAUSSIAN_PARAMS_def)
  have small: "length ds < 2 ^ 32" by (simp add: len100)
  have nth: "ds ! n = (if n mod 5 = 4 then 1 / 5 else 1)" if "n < 100" for n
    using that by (simp add: ds_def del: upt_rec_numeral)
  have cws: "corner_weight_sum ds base = 1" if "base \<in> {0, 25, 50, 75}" for base
  proof -
    have "corner_weight_sum ds base = (\<Sum>j<5. ds ! (base + (5 * j + 4)))"
      by (rule corner_weight_sum_unfold)
    also have "\<dots> = (\<Sum>j<(5::nat). 1 / 5)"
    proof (intro sum.cong refl)
      fix j :: nat assume "j \<in> {..<5}"
      then have j: "j < 5" by simp
      with that have "base + (5 * j + 4) < 100" by auto
      moreover from that have "(base + (5 * j + 4)) mod 5 = 4" by auto
      ultimately show "ds ! (base + (5 * j + 4)) = 1 / 5" by (simp add: nth)
    qed
    also have "\<dots> = 1" by simp
    finally show ?thesis .
  qed
  have corners: "\<forall>k<4. corner_weight_sum ds (tgmm_indices 3 2 ds (5 / 2) (7 * pi / 360) ! k) = 1"
  proof (intro allI impI)
    fix k :: nat assume "k < 4"
    then consider "k = 0" | "k = 1" | "k = 2" | "k = 3" by linarith
    then show "corner_weight_sum ds (tgmm_indices 3 2 ds (5 / 2) (7 * pi / 360) ! k) = 1"
      by cases (simp_all add: witness_indices [OF len100] cws)
  qed
  have h1: "(2::nat) \<le> 3" and h2: "(1::nat) \<le> 2" by simp_all
  from combined_weights_sum_to_one [OF h1 h2 len small corners]
  have "\<exists>tables weights.
         build_tgmm_distribution 3 2 ds (5 / 2) (7 * pi / 360) = Some (tables, weights)
         \<and> (\<Sum>i<4 * TGMM_COMPONENTS.
               tables ! (TGMM_GAUSSIAN_PARAMS * i + (TGMM_GAUSSIAN_PARAMS - 1))) = 1
         \<and> sum_list weights = 1"
    by blast
  moreover have "corner_weight_sum ds (tgmm_indices 3 2 ds (5 / 2) (7 * pi / 360) ! 0) = 1"
    "corner_weight_sum ds (tgmm_indices 3 2 ds (5 / 2) (7 * pi / 360) ! 1) = 1"
    "corner_weight_sum ds (tgmm_indices 3 2 ds (5 / 2) (7 * pi / 360) ! 2) = 1"
    "corner_weight_sum ds (tgmm_indices 3 2 ds (5 / 2) (7 * pi / 360) ! 3) = 1"
    using corners by simp_all
  ultimately show ?thesis using len unfolding ds_def by blast
qed

text \<open>
  Claim C10. For every turbidity and every elevation, in or out of the tabulated ranges, the
  turbidity indices are at most \<open>TURBITDITY_LVLS - 2\<close>, the elevation indices are at most
  \<open>ELEVATION_CTRL_PTS - 1\<close>, and each of the four gathers from the dataset buffer reads
  inside the buffer, whatever its size.
\<close>

theorem tgmm_gathers_within_bounds:
  fixes turbidity eta :: real
  assumes "2 \<le> lvls" and "1 \<le> pts"
  shows "t_idx_low lvls turbidity \<le> lvls - 2
       \<and> t_idx_high lvls turbidity \<le> lvls - 2
       \<and> eta_idx_low pts eta \<le> pts - 1
       \<and> eta_idx_high pts eta \<le> pts - 1
       \<and> (\<forall>k<4. \<forall>p<result_size lvls pts dataset_buf.
             u32 (tgmm_indices lvls pts dataset_buf turbidity eta ! k
                  + p) < length dataset_buf)
       \<and> (\<forall>k<4. gather dataset_buf
                    (map (\<lambda>p. u32 (tgmm_indices lvls pts
                                      dataset_buf turbidity eta ! k + p))
                       (arange (result_size lvls pts dataset_buf)))
                  \<noteq> None)"
proof -
  let ?rs = "result_size lvls pts dataset_buf"
  let ?ix = "tgmm_indices lvls pts dataset_buf turbidity eta"
  have t: "t_idx_low lvls turbidity \<le> lvls - 2"
    "t_idx_high lvls turbidity \<le> lvls - 2"
    using t_idx_low_le [of lvls turbidity] t_idx_high_le [of lvls turbidity]
    by simp_all
  have e: "eta_idx_low pts eta \<le> pts - 1"
    "eta_idx_high pts eta \<le> pts - 1"
    by (rule eta_idx_low_le, rule eta_idx_high_le)
  have bound: "?ix ! k + ?rs \<le> length dataset_buf" if "k < 4" for k
    using assms that by (rule tgmm_indices_in_bounds)
  have reads: "u32 (?ix ! k + p) < length dataset_buf" if "k < 4" "p < ?rs" for k p
    using bound [OF that(1)] that(2) u32_le [of "?ix ! k + p"] by linarith
  have gathers: "gather dataset_buf (map (\<lambda>p. u32 (?ix ! k + p)) (arange ?rs)) \<noteq> None"
    if "k < 4" for k
    using bound [OF that] by (rule gather_in_bounds)
  from t e reads gathers show ?thesis by blast
qed

theorem tgmm_gathers_within_bounds_witness:
  "(2::nat) \<le> 10 \<and> (1::nat) \<le> 30
   \<and> t_idx_low 10 25 \<le> 10 - 2 \<and> t_idx_high 10 25 \<le> 10 - 2
   \<and> eta_idx_low 30 (- 1) \<le> 30 - 1 \<and> eta_idx_high 30 (- 1) \<le> 30 - 1
   \<and> gather (replicate 6750 (0::real))
         (map (\<lambda>p. u32 (tgmm_indices 10 30 (replicate 6750 0) 25 (- 1) ! 0 + p))
            (arange (result_size 10 30 (replicate 6750 0)))) \<noteq> None
   \<and> gather (replicate 6750 (0::real))
         (map (\<lambda>p. u32 (tgmm_indices 10 30 (replicate 6750 0) 25 (- 1) ! 3 + p))
            (arange (result_size 10 30 (replicate 6750 0)))) \<noteq> None"
proof -
  have h1: "(2::nat) \<le> 10" and h2: "(1::nat) \<le> 30" by simp_all
  have k: "(0::nat) < 4" "(3::nat) < 4" by simp_all
  from tgmm_gathers_within_bounds [OF h1 h2, of 25 "- 1" "replicate 6750 0"] h1 h2 k
  show ?thesis by blast
qed

section \<open>The Bezier blend\<close>

lemma tensor_take_length:
  assumes "i < shape0 ds"
  shows "\<exists>data. tensor_take ds i = Some data
           \<and> length data = length (array ds) div shape0 ds
           \<and> (\<forall>j < length (array ds) div shape0 ds.
                 data ! j = array ds ! (i * (length (array ds) div shape0 ds) + j))"
proof -
  let ?n = "length (array ds) div shape0 ds"
  have "(i + 1) * ?n \<le> shape0 ds * ?n"
    using assms(1) by (intro mult_le_mono1) simp
  also have "\<dots> \<le> length (array ds)" by simp
  finally have b: "i * ?n + ?n \<le> length (array ds)" by simp
  then show ?thesis
    using assms by (simp add: tensor_take_def Let_def)
qed

lemma bezier_loop_closed:
  assumes "shape0 ds = SKY_CTRL_PTS" and "length res = length (array ds) div shape0 ds"
    and "k \<le> SKY_CTRL_PTS"
  shows "bezier_loop ds x s k res xp xpi =
           Some (map (\<lambda>j. res ! j
                   + (\<Sum>i = k..<SKY_CTRL_PTS. coefs ! i * (xp * x ^ (i - k)) * (xpi * s ^ (i - k))
                        * array ds ! (i * (length (array ds) div shape0 ds) + j)))
                 [0..<length (array ds) div shape0 ds])"
  using assms
proof (induction ds x s k res xp xpi rule: bezier_loop.induct)
  case (1 ds x s k res xp xpi)
  let ?n = "length (array ds) div shape0 ds"
  show ?case
  proof (cases "k < SKY_CTRL_PTS")
    case False
    with "1.prems" have "k = SKY_CTRL_PTS" by simp
    moreover have "map ((!) res) [0..<?n] = res"
      using map_nth [of res] "1.prems"(2) by simp
    ultimately show ?thesis
      by (subst bezier_loop.simps) simp
  next
    case True
    then have "k < shape0 ds" using "1.prems"(1) by simp
    from tensor_take_length [OF this] obtain data where
      tk: "tensor_take ds k = Some data" and len: "length data = ?n"
      and nth: "\<And>j. j < ?n \<Longrightarrow> data ! j = array ds ! (k * ?n + j)"
      by blast
    let ?res' = "map2 (\<lambda>r d. r + coefs ! k * xp * xpi * d) res data"
    have len': "length ?res' = ?n" using len "1.prems"(2) by simp
    have IH: "bezier_loop ds x s (k + 1) ?res' (xp * x) (xpi * s) =
           Some (map (\<lambda>j. ?res' ! j
                   + (\<Sum>i = k + 1..<SKY_CTRL_PTS. coefs ! i * (xp * x * x ^ (i - (k + 1)))
                        * (xpi * s * s ^ (i - (k + 1))) * array ds ! (i * ?n + j)))
                 [0..<?n])"
      using True "1.prems"(1) len' by (intro "1.IH" [OF True tk]) simp_all
    have eq: "?res' ! j
                + (\<Sum>i = k + 1..<SKY_CTRL_PTS. coefs ! i * (xp * x * x ^ (i - (k + 1)))
                     * (xpi * s * s ^ (i - (k + 1))) * array ds ! (i * ?n + j))
              = res ! j
                + (\<Sum>i = k..<SKY_CTRL_PTS. coefs ! i * (xp * x ^ (i - k)) * (xpi * s ^ (i - k))
                     * array ds ! (i * ?n + j))"
      if j: "j < ?n" for j
    proof -
      have r: "?res' ! j = res ! j + coefs ! k * xp * xpi * array ds ! (k * ?n + j)"
        using j len "1.prems"(2) nth [OF j] by simp
      have "(\<Sum>i = k + 1..<SKY_CTRL_PTS. coefs ! i * (xp * x * x ^ (i - (k + 1)))
                     * (xpi * s * s ^ (i - (k + 1))) * array ds ! (i * ?n + j))
            = (\<Sum>i = k + 1..<SKY_CTRL_PTS. coefs ! i * (xp * x ^ (i - k)) * (xpi * s ^ (i - k))
                     * array ds ! (i * ?n + j))"
      proof (intro sum.cong refl)
        fix i assume "i \<in> {k + 1..<SKY_CTRL_PTS}"
        then have "i - k = Suc (i - (k + 1))" by auto
        then show "coefs ! i * (xp * x * x ^ (i - (k + 1))) * (xpi * s * s ^ (i - (k + 1)))
                     * array ds ! (i * ?n + j)
                 = coefs ! i * (xp * x ^ (i - k)) * (xpi * s ^ (i - k)) * array ds ! (i * ?n + j)"
          by (simp add: mult.assoc)
      qed
      moreover have "(\<Sum>i = k..<SKY_CTRL_PTS. coefs ! i * (xp * x ^ (i - k)) * (xpi * s ^ (i - k))
                     * array ds ! (i * ?n + j))
            = coefs ! k * xp * xpi * array ds ! (k * ?n + j)
              + (\<Sum>i = k + 1..<SKY_CTRL_PTS. coefs ! i * (xp * x ^ (i - k)) * (xpi * s ^ (i - k))
                     * array ds ! (i * ?n + j))"
        using True by (simp add: sum.atLeast_Suc_lessThan)
      ultimately show ?thesis using r by simp
    qed
    have "bezier_loop ds x s k res xp xpi = bezier_loop ds x s (k + 1) ?res' (xp * x) (xpi * s)"
      using True tk by (subst bezier_loop.simps) simp
    also note IH
    finally show ?thesis using eq by simp
  qed
qed

lemma bezier_interp_closed:
  assumes "shape0 ds = SKY_CTRL_PTS" and "ome < 1"
  shows "bezier_interp ome ds eta =
           Some (map (bezier_sum ds (min (root 3 (2 * InvPi * eta)) ome))
                   [0..<length (array ds) div shape0 ds])"
proof -
  let ?n = "length (array ds) div shape0 ds"
  define x where "x = min (root 3 (2 * InvPi * eta)) ome"
  have "x \<le> ome" by (simp add: x_def)
  with assms(2) have x1: "1 - x \<noteq> 0" by linarith
  have pw: "(1 - x) ^ (SKY_CTRL_PTS - 1) * rcp (1 - x) ^ i = (1 - x) ^ (SKY_CTRL_PTS - 1 - i)"
    if "i < SKY_CTRL_PTS" for i
  proof -
    from that have "i \<le> SKY_CTRL_PTS - 1" by simp
    from power_diff [OF x1 this] show ?thesis
      by (simp add: rcp_def power_divide)
  qed
  have "bezier_interp ome ds eta
          = bezier_loop ds x (rcp (1 - x)) 0 (replicate ?n 0) 1 ((1 - x) ^ (SKY_CTRL_PTS - 1))"
    by (simp add: bezier_interp_def Let_def x_def)
  also have "\<dots> = Some (map (\<lambda>j. replicate ?n 0 ! j
                   + (\<Sum>i = 0..<SKY_CTRL_PTS. coefs ! i * (1 * x ^ (i - 0))
                        * ((1 - x) ^ (SKY_CTRL_PTS - 1) * rcp (1 - x) ^ (i - 0))
                        * array ds ! (i * ?n + j)))
                 [0..<?n])"
    using assms(1) by (intro bezier_loop_closed) simp_all
  also have "map (\<lambda>j. replicate ?n 0 ! j
                   + (\<Sum>i = 0..<SKY_CTRL_PTS. coefs ! i * (1 * x ^ (i - 0))
                        * ((1 - x) ^ (SKY_CTRL_PTS - 1) * rcp (1 - x) ^ (i - 0))
                        * array ds ! (i * ?n + j)))
                 [0..<?n] = map (bezier_sum ds x) [0..<?n]"
  proof (rule map_cong [OF refl])
    fix j assume "j \<in> set [0..<?n]"
    then have j: "j < ?n" by simp
    have "(\<Sum>i = 0..<SKY_CTRL_PTS. coefs ! i * (1 * x ^ (i - 0))
                        * ((1 - x) ^ (SKY_CTRL_PTS - 1) * rcp (1 - x) ^ (i - 0))
                        * array ds ! (i * ?n + j))
          = (\<Sum>i = 0..<SKY_CTRL_PTS. coefs ! i * x ^ i * (1 - x) ^ (SKY_CTRL_PTS - 1 - i)
                        * array ds ! (i * ?n + j))"
    proof (intro sum.cong refl)
      fix i assume "i \<in> {0..<SKY_CTRL_PTS}"
      then have i: "i < SKY_CTRL_PTS" by simp
      have "coefs ! i * (1 * x ^ (i - 0))
              * ((1 - x) ^ (SKY_CTRL_PTS - 1) * rcp (1 - x) ^ (i - 0)) * array ds ! (i * ?n + j)
            = coefs ! i * x ^ i * ((1 - x) ^ (SKY_CTRL_PTS - 1) * rcp (1 - x) ^ i)
              * array ds ! (i * ?n + j)"
        by simp
      also have "\<dots> = coefs ! i * x ^ i * (1 - x) ^ (SKY_CTRL_PTS - 1 - i)
              * array ds ! (i * ?n + j)"
        by (simp only: pw [OF i])
      finally show "coefs ! i * (1 * x ^ (i - 0))
              * ((1 - x) ^ (SKY_CTRL_PTS - 1) * rcp (1 - x) ^ (i - 0)) * array ds ! (i * ?n + j)
            = coefs ! i * x ^ i * (1 - x) ^ (SKY_CTRL_PTS - 1 - i) * array ds ! (i * ?n + j)" .
    qed
    then show "replicate ?n 0 ! j
                   + (\<Sum>i = 0..<SKY_CTRL_PTS. coefs ! i * (1 * x ^ (i - 0))
                        * ((1 - x) ^ (SKY_CTRL_PTS - 1) * rcp (1 - x) ^ (i - 0))
                        * array ds ! (i * ?n + j)) = bezier_sum ds x j"
      using j by (simp add: bezier_sum_def atLeast0LessThan)
  qed
  finally show ?thesis by (simp add: x_def)
qed

lemma bezier_sum_unfold:
  "bezier_sum ds x j =
     (let n = length (array ds) div shape0 ds in
      (1 - x) ^ 5 * array ds ! j
      + 5 * x * (1 - x) ^ 4 * array ds ! (n + j)
      + 10 * x ^ 2 * (1 - x) ^ 3 * array ds ! (2 * n + j)
      + 10 * x ^ 3 * (1 - x) ^ 2 * array ds ! (3 * n + j)
      + 5 * x ^ 4 * (1 - x) * array ds ! (4 * n + j)
      + x ^ 5 * array ds ! (5 * n + j))"
  by (simp add: bezier_sum_def SKY_CTRL_PTS_def coefs_def Let_def eval_nat_numeral lessThan_Suc
      algebra_simps)

lemma cbrt_arg: "2 * InvPi * eta = (2 / pi) * eta"
  by (simp add: InvPi_def)

text \<open>
  Claim C4, amended. For every \<open>\<eta>\<close>, \<open>bezier_interp\<close> computes
  \<open>x = min (cbrt ((2/\<pi>) \<eta>)) (1 - \<epsilon>)\<close>, clamped from above only, and returns for each output
  entry the sum over the six control points of \<open>coef[i] x^i (1 - x)^(5 - i) dataset[i]\<close>;
  for \<open>\<eta> \<ge> 0\<close> this \<open>x\<close> is \<open>clamp (cbrt ((2/\<pi>) \<eta>)) 0 (1 - \<epsilon>)\<close>.
\<close>

theorem bezier_interp_formula:
  assumes "shape0 dataset = SKY_CTRL_PTS" and "one_minus_eps < 1"
  shows "bezier_interp one_minus_eps dataset eta =
           Some (map (bezier_sum dataset (min (root 3 ((2 / pi) * eta)) one_minus_eps))
                   [0..<length (array dataset) div shape0 dataset])
         \<and> coefs = [1, 5, 10, 10, 5, 1]
         \<and> (0 \<le> eta \<longrightarrow>
              bezier_interp one_minus_eps dataset eta
                = Some (bezier_spec one_minus_eps dataset eta))"
proof -
  have closed: "bezier_interp one_minus_eps dataset eta =
           Some (map (bezier_sum dataset (min (root 3 ((2 / pi) * eta)) one_minus_eps))
                   [0..<length (array dataset) div shape0 dataset])"
    using bezier_interp_closed [OF assms, of eta] by (simp only: cbrt_arg)
  have "clip (root 3 ((2 / pi) * eta)) 0 one_minus_eps
          = min (root 3 ((2 / pi) * eta)) one_minus_eps" if "0 \<le> eta"
  proof -
    from that have "0 \<le> (2 / pi) * eta" by simp
    then have "0 \<le> root 3 ((2 / pi) * eta)" by simp
    then show ?thesis by (simp add: clip_def max_def)
  qed
  with closed show ?thesis by (simp add: bezier_spec_def coefs_def)
qed

theorem bezier_interp_formula_witness:
  "shape0 \<lparr>shape0 = 6, array = [1, 2, 3, 4, 5, 6]\<rparr> = SKY_CTRL_PTS \<and> (1 / 2 :: real) < 1
   \<and> bezier_interp (1 / 2) \<lparr>shape0 = 6, array = [1, 2, 3, 4, 5, 6]\<rparr> 0 = Some [1]"
proof -
  let ?ds = "\<lparr>shape0 = 6, array = [1, 2, 3, 4, 5, 6 :: real]\<rparr>"
  have h1: "shape0 ?ds = SKY_CTRL_PTS" by (simp add: SKY_CTRL_PTS_def)
  have h2: "(1 / 2 :: real) < 1" by simp
  from bezier_interp_formula [OF h1 h2, of 0]
  have "bezier_interp (1 / 2) ?ds 0 = Some (map (bezier_sum ?ds 0) [0..<1])"
    by simp
  moreover have "bezier_sum ?ds 0 0 = 1"
    by (simp add: bezier_sum_unfold)
  ultimately show ?thesis using h1 h2 by simp
qed

theorem bezier_interp_clamp_counterexample:
  "bezier_interp (1 - 1 / 2 ^ 24) \<lparr>shape0 = 6, array = [1, 0, 0, 0, 0, 0]\<rparr> (- (pi / 2)) = Some [32]
   \<and> bezier_spec (1 - 1 / 2 ^ 24) \<lparr>shape0 = 6, array = [1, 0, 0, 0, 0, 0]\<rparr> (- (pi / 2)) = [1]
   \<and> bezier_interp (1 - 1 / 2 ^ 24) \<lparr>shape0 = 6, array = [1, 0, 0, 0, 0, 0]\<rparr> (- (pi / 2))
       \<noteq> Some (bezier_spec (1 - 1 / 2 ^ 24) \<lparr>shape0 = 6, array = [1, 0, 0, 0, 0, 0]\<rparr>
                  (- (pi / 2)))"
proof -
  let ?ds = "\<lparr>shape0 = 6, array = [1, 0, 0, 0, 0, 0 :: real]\<rparr>"
  have h1: "shape0 ?ds = SKY_CTRL_PTS" by (simp add: SKY_CTRL_PTS_def)
  have h2: "(1 - 1 / 2 ^ 24 :: real) < 1" by simp
  have r: "root 3 (- 1 :: real) = - 1"
    by (simp add: real_root_minus)
  have x: "min (root 3 (2 * InvPi * - (pi / 2))) (1 - 1 / 2 ^ 24) = (- 1 :: real)"
    by (simp add: InvPi_def r)
  have "bezier_interp (1 - 1 / 2 ^ 24) ?ds (- (pi / 2)) = Some (map (bezier_sum ?ds (- 1)) [0..<1])"
    using bezier_interp_closed [OF h1 h2, of "- (pi / 2)"] by (simp only: x) simp
  moreover have "bezier_sum ?ds (- 1) 0 = 32"
    by (simp add: bezier_sum_unfold)
  moreover have "clip (root 3 ((2 / pi) * - (pi / 2))) 0 (1 - 1 / 2 ^ 24) = (0 :: real)"
    by (simp add: clip_def r)
  moreover have "bezier_sum ?ds 0 0 = 1"
    by (simp add: bezier_sum_unfold)
  ultimately show ?thesis by (simp add: bezier_spec_def)
qed

lemma bernstein_sum_one:
  fixes x :: real
  shows "(1 - x) ^ 5 + 5 * x * (1 - x) ^ 4 + 10 * x ^ 2 * (1 - x) ^ 3
         + 10 * x ^ 3 * (1 - x) ^ 2 + 5 * x ^ 4 * (1 - x) + x ^ 5 = 1"
  by algebra

lemma blend_near_last:
  fixes x M :: real and d0 d1 d2 d3 d4 d5 :: real
  assumes x: "0 \<le> x" "x \<le> 1"
    and d: "\<bar>d0 - d5\<bar> \<le> M" "\<bar>d1 - d5\<bar> \<le> M" "\<bar>d2 - d5\<bar> \<le> M" "\<bar>d3 - d5\<bar> \<le> M"
      "\<bar>d4 - d5\<bar> \<le> M"
  shows "\<bar>(1 - x) ^ 5 * d0 + 5 * x * (1 - x) ^ 4 * d1 + 10 * x ^ 2 * (1 - x) ^ 3 * d2
          + 10 * x ^ 3 * (1 - x) ^ 2 * d3 + 5 * x ^ 4 * (1 - x) * d4 + x ^ 5 * d5 - d5\<bar>
         \<le> (1 - x ^ 5) * M"
proof -
  define b0 where "b0 = (1 - x) ^ 5"
  define b1 where "b1 = 5 * x * (1 - x) ^ 4"
  define b2 where "b2 = 10 * x ^ 2 * (1 - x) ^ 3"
  define b3 where "b3 = 10 * x ^ 3 * (1 - x) ^ 2"
  define b4 where "b4 = 5 * x ^ 4 * (1 - x)"
  have nn: "0 \<le> b0" "0 \<le> b1" "0 \<le> b2" "0 \<le> b3" "0 \<le> b4"
    using x by (simp_all add: b0_def b1_def b2_def b3_def b4_def)
  have one: "b0 + b1 + b2 + b3 + b4 = 1 - x ^ 5"
    using bernstein_sum_one [of x] by (simp add: b0_def b1_def b2_def b3_def b4_def)
  have "b0 * d0 + b1 * d1 + b2 * d2 + b3 * d3 + b4 * d4 + x ^ 5 * d5 - d5
          = b0 * (d0 - d5) + b1 * (d1 - d5) + b2 * (d2 - d5) + b3 * (d3 - d5) + b4 * (d4 - d5)
            + (b0 + b1 + b2 + b3 + b4 - (1 - x ^ 5)) * d5"
    by (simp add: algebra_simps)
  also have "\<dots> = b0 * (d0 - d5) + b1 * (d1 - d5) + b2 * (d2 - d5) + b3 * (d3 - d5)
                    + b4 * (d4 - d5)"
    by (simp add: one)
  finally have eq: "b0 * d0 + b1 * d1 + b2 * d2 + b3 * d3 + b4 * d4 + x ^ 5 * d5 - d5
          = b0 * (d0 - d5) + b1 * (d1 - d5) + b2 * (d2 - d5) + b3 * (d3 - d5) + b4 * (d4 - d5)" .
  have t: "\<bar>b * e\<bar> \<le> b * M" if "0 \<le> b" "\<bar>e\<bar> \<le> M" for b e :: real
    using that by (simp add: abs_mult mult_left_mono)
  have "\<bar>b0 * (d0 - d5) + b1 * (d1 - d5) + b2 * (d2 - d5) + b3 * (d3 - d5) + b4 * (d4 - d5)\<bar>
          \<le> \<bar>b0 * (d0 - d5)\<bar> + \<bar>b1 * (d1 - d5)\<bar> + \<bar>b2 * (d2 - d5)\<bar> + \<bar>b3 * (d3 - d5)\<bar>
             + \<bar>b4 * (d4 - d5)\<bar>"
    by linarith
  also have "\<dots> \<le> b0 * M + b1 * M + b2 * M + b3 * M + b4 * M"
    using t [OF nn(1) d(1)] t [OF nn(2) d(2)] t [OF nn(3) d(3)] t [OF nn(4) d(4)]
      t [OF nn(5) d(5)]
    by linarith
  also have "\<dots> = (b0 + b1 + b2 + b3 + b4) * M"
    by (simp add: distrib_right)
  also have "\<dots> = (1 - x ^ 5) * M"
    by (simp only: one)
  finally show ?thesis
    unfolding eq [symmetric] by (simp add: b0_def b1_def b2_def b3_def b4_def)
qed

lemma bezier_interp_at_zero:
  assumes "shape0 ds = SKY_CTRL_PTS" and "0 \<le> ome" and "ome < 1"
  shows "bezier_interp ome ds 0 = Some (take (length (array ds) div shape0 ds) (array ds))"
proof -
  let ?n = "length (array ds) div shape0 ds"
  have n: "?n \<le> length (array ds)" by (rule div_le_dividend)
  have "bezier_interp ome ds 0 = Some (map (bezier_sum ds 0) [0..<?n])"
    using bezier_interp_closed [OF assms(1,3), of 0] assms(2) by simp
  moreover have "map (bezier_sum ds 0) [0..<?n] = take ?n (array ds)"
    using n by (intro nth_equalityI) (simp_all add: bezier_sum_unfold Let_def)
  ultimately show ?thesis by simp
qed

lemma bezier_interp_saturated:
  assumes "shape0 ds = SKY_CTRL_PTS" and "ome < 1" and "(pi / 2) * ome ^ 3 \<le> eta"
  shows "bezier_interp ome ds eta
           = Some (map (bezier_sum ds ome) [0..<length (array ds) div shape0 ds])"
proof -
  have "ome ^ 3 \<le> (2 / pi) * eta"
  proof -
    have "(2 / pi) * ((pi / 2) * ome ^ 3) \<le> (2 / pi) * eta"
      using assms(3) by (intro mult_left_mono) simp_all
    then show ?thesis by simp
  qed
  then have "root 3 (ome ^ 3) \<le> root 3 ((2 / pi) * eta)"
    by simp
  moreover have "root 3 (ome ^ 3) = ome"
    by (rule odd_real_root_power_cancel) simp
  ultimately have "min (root 3 (2 * InvPi * eta)) ome = ome"
    by (simp add: cbrt_arg)
  with bezier_interp_closed [OF assms(1,2), of eta] show ?thesis by simp
qed

lemma bezier_entry_tendsto:
  assumes "shape0 ds = SKY_CTRL_PTS" and "0 \<le> ome" and "ome < 1"
    and "j < length (array ds) div shape0 ds"
  shows "(bezier_entry ome ds j \<longlongrightarrow> bezier_sum ds ome j) (at_left (pi / 2))"
proof -
  have "ome ^ 3 < 1 ^ 3" using assms(3,2) by (rule power_strict_mono) simp
  then have "ome ^ 3 < 1" by simp
  then have b: "(pi / 2) * ome ^ 3 < pi / 2"
    by simp
  have const: "bezier_entry ome ds j eta = bezier_sum ds ome j" if "(pi / 2) * ome ^ 3 < eta" for eta
  proof -
    from that have "(pi / 2) * ome ^ 3 \<le> eta" by simp
    from bezier_interp_saturated [OF assms(1,3) this] assms(4)
    show ?thesis by (simp add: bezier_entry_def)
  qed
  have "eventually (\<lambda>eta. bezier_entry ome ds j eta = bezier_sum ds ome j) (at_left (pi / 2))"
  proof -
    have "eventually (\<lambda>eta. eta \<in> {(pi / 2) * ome ^ 3<..<pi / 2}) (at_left (pi / 2))"
      using b by (rule eventually_at_left_real)
    then show ?thesis
      by (rule eventually_mono) (use const in simp)
  qed
  then show ?thesis by (rule tendsto_eventually)
qed

text \<open>
  Claim C5, amended. At \<open>\<eta> = 0\<close> \<open>bezier_interp\<close> returns exactly the data of control point
  0. For \<open>\<eta> \<ge> (\<pi>/2) (1 - \<epsilon>)^3\<close>, hence in the limit \<open>\<eta> \<rightarrow> \<pi>/2\<close>, it returns the blend at
  \<open>x = 1 - \<epsilon>\<close>, whose entries are within \<open>(1 - (1 - \<epsilon>)^5) M\<close> of the data of control point
  5, where \<open>M\<close> bounds the distance of the other control points' entries from it.
\<close>

theorem bezier_interp_boundary:
  assumes "shape0 dataset = SKY_CTRL_PTS" and "0 \<le> one_minus_eps" and "one_minus_eps < 1"
  shows "bezier_interp one_minus_eps dataset 0 = tensor_take dataset 0
       \<and> ((pi / 2) * one_minus_eps ^ 3 \<le> eta \<longrightarrow>
            bezier_interp one_minus_eps dataset eta
              = Some (map (bezier_sum dataset one_minus_eps)
                        [0..<length (array dataset) div shape0 dataset]))
       \<and> (j < length (array dataset) div shape0 dataset \<longrightarrow>
            (bezier_entry one_minus_eps dataset j \<longlongrightarrow> bezier_sum dataset one_minus_eps j)
              (at_left (pi / 2)))
       \<and> ((\<forall>i<SKY_CTRL_PTS.
              \<bar>array dataset ! (i * (length (array dataset) div shape0 dataset) + j)
                - array dataset ! ((SKY_CTRL_PTS - 1) * (length (array dataset) div shape0 dataset) + j)\<bar>
              \<le> M) \<longrightarrow>
            \<bar>bezier_sum dataset one_minus_eps j
              - array dataset ! ((SKY_CTRL_PTS - 1) * (length (array dataset) div shape0 dataset) + j)\<bar>
            \<le> (1 - one_minus_eps ^ 5) * M)"
proof -
  let ?n = "length (array dataset) div shape0 dataset"
  have z: "bezier_interp one_minus_eps dataset 0 = tensor_take dataset 0"
    using bezier_interp_at_zero [OF assms] assms(1)
    by (simp add: tensor_take_def SKY_CTRL_PTS_def Let_def)
  have s: "(pi / 2) * one_minus_eps ^ 3 \<le> eta \<longrightarrow>
            bezier_interp one_minus_eps dataset eta
              = Some (map (bezier_sum dataset one_minus_eps) [0..<?n])"
    using bezier_interp_saturated [OF assms(1,3)] by blast
  have l: "j < ?n \<longrightarrow>
            (bezier_entry one_minus_eps dataset j \<longlongrightarrow> bezier_sum dataset one_minus_eps j)
              (at_left (pi / 2))"
    using bezier_entry_tendsto [OF assms] by blast
  have b: "\<bar>bezier_sum dataset one_minus_eps j - array dataset ! ((SKY_CTRL_PTS - 1) * ?n + j)\<bar>
            \<le> (1 - one_minus_eps ^ 5) * M"
    if h: "\<forall>i<SKY_CTRL_PTS. \<bar>array dataset ! (i * ?n + j)
              - array dataset ! ((SKY_CTRL_PTS - 1) * ?n + j)\<bar> \<le> M"
  proof -
    have d: "\<bar>array dataset ! (i * ?n + j) - array dataset ! (5 * ?n + j)\<bar> \<le> M" if "i < 6" for i
      using h that by (simp add: SKY_CTRL_PTS_def)
    have x1: "one_minus_eps \<le> 1" using assms(3) by simp
    from blend_near_last [OF assms(2) x1 _ _ _ _ _, of "array dataset ! j" "array dataset ! (5 * ?n + j)"
        M "array dataset ! (?n + j)" "array dataset ! (2 * ?n + j)" "array dataset ! (3 * ?n + j)"
        "array dataset ! (4 * ?n + j)"]
      d [of 0] d [of 1] d [of 2] d [of 3] d [of 4]
    show ?thesis
      by (simp add: bezier_sum_unfold Let_def SKY_CTRL_PTS_def)
  qed
  have b': "(\<forall>i<SKY_CTRL_PTS. \<bar>array dataset ! (i * ?n + j)
              - array dataset ! ((SKY_CTRL_PTS - 1) * ?n + j)\<bar> \<le> M) \<longrightarrow>
            \<bar>bezier_sum dataset one_minus_eps j - array dataset ! ((SKY_CTRL_PTS - 1) * ?n + j)\<bar>
            \<le> (1 - one_minus_eps ^ 5) * M"
    by (rule impI) (rule b)
  show ?thesis
    by (intro conjI) (fact z, fact s, fact l, fact b')
qed

theorem bezier_interp_boundary_witness:
  "shape0 \<lparr>shape0 = 6, array = [1, 2, 3, 4, 5, 6]\<rparr> = SKY_CTRL_PTS
   \<and> (0 :: real) \<le> 1 / 2 \<and> (1 / 2 :: real) < 1 \<and> (pi / 2) * (1 / 2) ^ 3 \<le> pi / 2
   \<and> bezier_interp (1 / 2) \<lparr>shape0 = 6, array = [1, 2, 3, 4, 5, 6]\<rparr> 0 = Some [1]
   \<and> bezier_interp (1 / 2) \<lparr>shape0 = 6, array = [1, 2, 3, 4, 5, 6]\<rparr> (pi / 2)
       = Some [bezier_sum \<lparr>shape0 = 6, array = [1, 2, 3, 4, 5, 6]\<rparr> (1 / 2) 0]
   \<and> (bezier_entry (1 / 2) \<lparr>shape0 = 6, array = [1, 2, 3, 4, 5, 6]\<rparr> 0
        \<longlongrightarrow> bezier_sum \<lparr>shape0 = 6, array = [1, 2, 3, 4, 5, 6]\<rparr> (1 / 2) 0) (at_left (pi / 2))
   \<and> \<bar>bezier_sum \<lparr>shape0 = 6, array = [1, 2, 3, 4, 5, 6]\<rparr> (1 / 2) 0 - 6\<bar>
       \<le> (1 - (1 / 2) ^ 5) * 5"
proof -
  let ?ds = "\<lparr>shape0 = 6, array = [1, 2, 3, 4, 5, 6 :: real]\<rparr>"
  have h1: "shape0 ?ds = SKY_CTRL_PTS" by (simp add: SKY_CTRL_PTS_def)
  have h2: "(0 :: real) \<le> 1 / 2" and h3: "(1 / 2 :: real) < 1" by simp_all
  have h4: "(pi / 2) * (1 / 2) ^ 3 \<le> pi / 2" by (simp add: power3_eq_cube)
  have h5: "\<forall>i<SKY_CTRL_PTS. \<bar>array ?ds ! (i * (length (array ?ds) div shape0 ?ds) + 0)
              - array ?ds ! ((SKY_CTRL_PTS - 1) * (length (array ?ds) div shape0 ?ds) + 0)\<bar> \<le> 5"
  proof (intro allI impI)
    fix i :: nat assume "i < SKY_CTRL_PTS"
    then consider "i = 0" | "i = 1" | "i = 2" | "i = 3" | "i = 4" | "i = 5"
      unfolding SKY_CTRL_PTS_def by linarith
    then show "\<bar>array ?ds ! (i * (length (array ?ds) div shape0 ?ds) + 0)
              - array ?ds ! ((SKY_CTRL_PTS - 1) * (length (array ?ds) div shape0 ?ds) + 0)\<bar> \<le> 5"
      by cases (simp_all add: SKY_CTRL_PTS_def)
  qed
  have n: "(0::nat) < length (array ?ds) div shape0 ?ds" by simp
  note T = bezier_interp_boundary [OF h1 h2 h3, of "pi / 2" 0 5]
  have t1: "bezier_interp (1 / 2) ?ds 0 = tensor_take ?ds 0"
    by (rule T [THEN conjunct1])
  have t2: "bezier_interp (1 / 2) ?ds (pi / 2)
           = Some (map (bezier_sum ?ds (1 / 2)) [0..<length (array ?ds) div shape0 ?ds])"
    by (rule T [THEN conjunct2, THEN conjunct1, THEN mp, OF h4])
  have t3: "(bezier_entry (1 / 2) ?ds 0 \<longlongrightarrow> bezier_sum ?ds (1 / 2) 0) (at_left (pi / 2))"
    by (rule T [THEN conjunct2, THEN conjunct2, THEN conjunct1, THEN mp, OF n])
  have t4: "\<bar>bezier_sum ?ds (1 / 2) 0
            - array ?ds ! ((SKY_CTRL_PTS - 1) * (length (array ?ds) div shape0 ?ds) + 0)\<bar>
          \<le> (1 - (1 / 2) ^ 5) * 5"
    by (rule T [THEN conjunct2, THEN conjunct2, THEN conjunct2, THEN mp, OF h5])
  have "bezier_interp (1 / 2) ?ds 0 = Some [1]"
    using t1 by (simp add: tensor_take_def)
  moreover have "bezier_interp (1 / 2) ?ds (pi / 2) = Some [bezier_sum ?ds (1 / 2) 0]"
    using t2 by simp
  moreover have "\<bar>bezier_sum ?ds (1 / 2) 0 - 6\<bar> \<le> (1 - (1 / 2) ^ 5) * 5"
    using t4 by (simp add: SKY_CTRL_PTS_def)
  ultimately show ?thesis
    using h1 h2 h3 h4 t3 by (intro conjI)
qed

theorem bezier_interp_limit_counterexample:
  "\<not> (bezier_entry (1 - 1 / 2 ^ 24) \<lparr>shape0 = 6, array = [0, 0, 0, 0, 1, 0]\<rparr> 0
        \<longlongrightarrow> array \<lparr>shape0 = 6, array = [0, 0, 0, 0, 1, 0]\<rparr> ! 5) (at_left (pi / 2))"
proof
  let ?ds = "\<lparr>shape0 = 6, array = [0, 0, 0, 0, 1, 0 :: real]\<rparr>"
  let ?ome = "1 - 1 / 2 ^ 24 :: real"
  assume lim: "(bezier_entry ?ome ?ds 0 \<longlongrightarrow> array ?ds ! 5) (at_left (pi / 2))"
  have h1: "shape0 ?ds = SKY_CTRL_PTS" by (simp add: SKY_CTRL_PTS_def)
  have h2: "0 \<le> ?ome" and h3: "?ome < 1" by simp_all
  have "(bezier_entry ?ome ?ds 0 \<longlongrightarrow> bezier_sum ?ds ?ome 0) (at_left (pi / 2))"
    by (rule bezier_entry_tendsto [OF h1 h2 h3]) simp
  with lim have "array ?ds ! 5 = bezier_sum ?ds ?ome 0"
    by (intro tendsto_unique [OF _ lim]) simp_all
  moreover have "bezier_sum ?ds ?ome 0 = 5 * ?ome ^ 4 * (1 - ?ome)"
    by (simp add: bezier_sum_unfold)
  moreover have "5 * ?ome ^ 4 * (1 - ?ome) > 0"
    by simp
  ultimately show False by simp
qed


section \<open>The balance weight\<close>

lemma guarded_ratio:
  "select (isnan (fdiv a (a + b))) (Finite 0) (fdiv a (a + b))
     = (if a + b \<noteq> 0 then Finite (a / (a + b)) else if a = 0 then Finite 0 else Inf)"
  by (simp add: fdiv_def isnan_def select_def)

text \<open>
  Claim C2, amended. In the vectorised variants the balance weight is
  \<open>sky_lum / (sky_lum + sun_lum)\<close> with \<open>sky_lum\<close>, \<open>sun_lum\<close> the scaled luminances; in the
  scalar variants it is \<open>m_sky_scale / (m_sky_scale + m_sun_scale)\<close>, the luminances not
  being computed. In both, a NaN ratio is mapped to 0, so the weight is 0 when the sky
  scale is 0 (also when both scales are 0) and 1 when the sun scale is 0 and the numerator
  is not 0.
\<close>

theorem estimate_sky_sun_ratio_weight:
  "fst (estimate_sky_sun_ratio True v ext sky_scale sun_scale half_aperture)
     = balance_spec v ext sky_scale sun_scale half_aperture
   \<and> fst (estimate_sky_sun_ratio False v ext sky_scale sun_scale half_aperture)
     = (if sky_scale = 0 \<and> sun_scale = 0 then Finite 0
        else fdiv sky_scale (sky_scale + sun_scale))
   \<and> fst (estimate_sky_sun_ratio vectorised v ext 0 sun_scale half_aperture) = Finite 0
   \<and> (sky_lum v ext sky_scale \<noteq> 0 \<longrightarrow>
        fst (estimate_sky_sun_ratio True v ext sky_scale 0 half_aperture) = Finite 1)
   \<and> (sky_scale \<noteq> 0 \<longrightarrow>
        fst (estimate_sky_sun_ratio False v ext sky_scale 0 half_aperture) = Finite 1)"
proof -
  have vec: "fst (estimate_sky_sun_ratio True v ext a b h)
               = select (isnan (fdiv (sky_lum v ext a) (sky_lum v ext a + sun_lum v ext b h)))
                   (Finite 0) (fdiv (sky_lum v ext a) (sky_lum v ext a + sun_lum v ext b h))"
    for a b h
    by (simp add: estimate_sky_sun_ratio_def Let_def)
  have sc: "fst (estimate_sky_sun_ratio False v ext a b h)
               = select (isnan (fdiv a (a + b))) (Finite 0) (fdiv a (a + b))" for a b h
    by (simp add: estimate_sky_sun_ratio_def Let_def)
  have z: "sky_lum v ext 0 = 0" by (simp add: sky_lum_def)
  have s0: "sun_lum v ext 0 h = 0" for h by (simp add: sun_lum_def)
  have 1: "fst (estimate_sky_sun_ratio True v ext sky_scale sun_scale half_aperture)
     = balance_spec v ext sky_scale sun_scale half_aperture"
    unfolding vec guarded_ratio by (simp add: balance_spec_def Let_def fdiv_def)
  have 2: "fst (estimate_sky_sun_ratio False v ext sky_scale sun_scale half_aperture)
     = (if sky_scale = 0 \<and> sun_scale = 0 then Finite 0
        else fdiv sky_scale (sky_scale + sun_scale))"
    unfolding sc guarded_ratio by (simp add: fdiv_def)
  have 3: "fst (estimate_sky_sun_ratio vectorised v ext 0 sun_scale half_aperture) = Finite 0"
    by (cases vectorised) (simp_all add: vec sc z fdiv_def isnan_def select_def)
  have 4: "sky_lum v ext sky_scale \<noteq> 0 \<longrightarrow>
        fst (estimate_sky_sun_ratio True v ext sky_scale 0 half_aperture) = Finite 1"
    by (simp add: vec s0 fdiv_def isnan_def select_def)
  have 5: "sky_scale \<noteq> 0 \<longrightarrow>
        fst (estimate_sky_sun_ratio False v ext sky_scale 0 half_aperture) = Finite 1"
    by (simp add: sc fdiv_def isnan_def select_def)
  show ?thesis by (intro conjI) (fact 1, fact 2, fact 3, fact 4, fact 5)
qed

theorem estimate_sky_sun_ratio_weight_witness:
  "sky_lum RGB \<lparr>luminance = sum_list, luminance_wav = (\<lambda>s w. sum_list s),
       get_area_ratio = (\<lambda>a. 1), SPEC_TO_RGB_SUN_CONV = 1, wavelengths = [],
       sky_radiance = [1, 1, 1], sun_radiance = [1, 0, 0], CHANNEL_COUNT = 3,
       range = (360, 830)\<rparr> 2 \<noteq> 0
   \<and> (2 :: real) \<noteq> 0
   \<and> fst (estimate_sky_sun_ratio True RGB \<lparr>luminance = sum_list, luminance_wav = (\<lambda>s w. sum_list s),
       get_area_ratio = (\<lambda>a. 1), SPEC_TO_RGB_SUN_CONV = 1, wavelengths = [],
       sky_radiance = [1, 1, 1], sun_radiance = [1, 0, 0], CHANNEL_COUNT = 3,
       range = (360, 830)\<rparr> 2 0 1) = Finite 1
   \<and> fst (estimate_sky_sun_ratio False RGB \<lparr>luminance = sum_list, luminance_wav = (\<lambda>s w. sum_list s),
       get_area_ratio = (\<lambda>a. 1), SPEC_TO_RGB_SUN_CONV = 1, wavelengths = [],
       sky_radiance = [1, 1, 1], sun_radiance = [1, 0, 0], CHANNEL_COUNT = 3,
       range = (360, 830)\<rparr> 2 0 1) = Finite 1"
proof -
  let ?ext = "\<lparr>luminance = sum_list, luminance_wav = (\<lambda>s w. sum_list s),
       get_area_ratio = (\<lambda>a. 1), SPEC_TO_RGB_SUN_CONV = 1, wavelengths = [],
       sky_radiance = [1, 1, 1], sun_radiance = [1, 0, 0], CHANNEL_COUNT = 3,
       range = (360, 830)\<rparr> :: ratio_ext"
  have h1: "sky_lum RGB ?ext 2 \<noteq> 0" by (simp add: sky_lum_def)
  have h2: "(2 :: real) \<noteq> 0" by simp
  note T = estimate_sky_sun_ratio_weight [of RGB ?ext 2 _ 1]
  have "fst (estimate_sky_sun_ratio True RGB ?ext 2 0 1) = Finite 1"
    by (rule T [THEN conjunct2, THEN conjunct2, THEN conjunct2, THEN conjunct1, THEN mp, OF h1])
  moreover have "fst (estimate_sky_sun_ratio False RGB ?ext 2 0 1) = Finite 1"
    by (rule T [THEN conjunct2, THEN conjunct2, THEN conjunct2, THEN conjunct2, THEN mp, OF h2])
  ultimately show ?thesis using h1 h2 by (intro conjI)
qed

theorem estimate_sky_sun_ratio_scalar_counterexample:
  "fst (estimate_sky_sun_ratio False RGB \<lparr>luminance = sum_list, luminance_wav = (\<lambda>s w. sum_list s),
       get_area_ratio = (\<lambda>a. 1), SPEC_TO_RGB_SUN_CONV = 1, wavelengths = [],
       sky_radiance = [1, 1, 1], sun_radiance = [1, 0, 0], CHANNEL_COUNT = 3,
       range = (360, 830)\<rparr> 1 1 1) = Finite (1 / 2)
   \<and> balance_spec RGB \<lparr>luminance = sum_list, luminance_wav = (\<lambda>s w. sum_list s),
       get_area_ratio = (\<lambda>a. 1), SPEC_TO_RGB_SUN_CONV = 1, wavelengths = [],
       sky_radiance = [1, 1, 1], sun_radiance = [1, 0, 0], CHANNEL_COUNT = 3,
       range = (360, 830)\<rparr> 1 1 1 = Finite (3 / 4)
   \<and> fst (estimate_sky_sun_ratio False RGB \<lparr>luminance = sum_list, luminance_wav = (\<lambda>s w. sum_list s),
       get_area_ratio = (\<lambda>a. 1), SPEC_TO_RGB_SUN_CONV = 1, wavelengths = [],
       sky_radiance = [1, 1, 1], sun_radiance = [1, 0, 0], CHANNEL_COUNT = 3,
       range = (360, 830)\<rparr> 1 1 1)
     \<noteq> balance_spec RGB \<lparr>luminance = sum_list, luminance_wav = (\<lambda>s w. sum_list s),
       get_area_ratio = (\<lambda>a. 1), SPEC_TO_RGB_SUN_CONV = 1, wavelengths = [],
       sky_radiance = [1, 1, 1], sun_radiance = [1, 0, 0], CHANNEL_COUNT = 3,
       range = (360, 830)\<rparr> 1 1 1"
  by (simp add: estimate_sky_sun_ratio_def balance_spec_def sky_lum_def sun_lum_def fdiv_def
      isnan_def select_def Let_def)


section \<open>The sky density\<close>

lemma sky_pdf_loop_closed:
  assumes "4 * TGMM_COMPONENTS * TGMM_GAUSSIAN_PARAMS \<le> length tables"
    and "k \<le> 4 * TGMM_COMPONENTS"
  shows "sky_pdf_loop ext tables angles (k * TGMM_GAUSSIAN_PARAMS) pdf
           = Some (pdf + (\<Sum>i = k..<4 * TGMM_COMPONENTS.
                            gaussian_term ext tables angles (i * TGMM_GAUSSIAN_PARAMS)))"
  using assms(2)
proof (induction "4 * TGMM_COMPONENTS - k" arbitrary: k pdf)
  case 0
  then have "k = 4 * TGMM_COMPONENTS" by simp
  then show ?case
    by (subst sky_pdf_loop.simps) simp
next
  case (Suc n)
  then have k: "k < 4 * TGMM_COMPONENTS" by simp
  then have lt: "k * TGMM_GAUSSIAN_PARAMS < 4 * TGMM_COMPONENTS * TGMM_GAUSSIAN_PARAMS"
    by (simp add: TGMM_GAUSSIAN_PARAMS_def)
  have "k * TGMM_GAUSSIAN_PARAMS + TGMM_GAUSSIAN_PARAMS
          \<le> 4 * TGMM_COMPONENTS * TGMM_GAUSSIAN_PARAMS"
    using k by (simp add: TGMM_GAUSSIAN_PARAMS_def)
  with assms(1) have rd: "k * TGMM_GAUSSIAN_PARAMS + 4 < length tables"
    by (simp add: TGMM_GAUSSIAN_PARAMS_def)
  have "sky_pdf_loop ext tables angles (k * TGMM_GAUSSIAN_PARAMS) pdf
          = sky_pdf_loop ext tables angles (Suc k * TGMM_GAUSSIAN_PARAMS)
              (pdf + gaussian_term ext tables angles (k * TGMM_GAUSSIAN_PARAMS))"
    using lt rd by (subst sky_pdf_loop.simps) (simp add: add.commute)
  also have "\<dots> = Some (pdf + gaussian_term ext tables angles (k * TGMM_GAUSSIAN_PARAMS)
                     + (\<Sum>i = Suc k..<4 * TGMM_COMPONENTS.
                          gaussian_term ext tables angles (i * TGMM_GAUSSIAN_PARAMS)))"
    using Suc.hyps(2) k by (intro Suc.hyps(1)) simp_all
  also have "\<dots> = Some (pdf + (\<Sum>i = k..<4 * TGMM_COMPONENTS.
                          gaussian_term ext tables angles (i * TGMM_GAUSSIAN_PARAMS)))"
    using k by (simp add: sum.atLeast_Suc_lessThan)
  finally show ?case .
qed

lemma sky_pdf_loop_sum:
  assumes "4 * TGMM_COMPONENTS * TGMM_GAUSSIAN_PARAMS \<le> length tables"
  shows "sky_pdf_loop ext tables angles 0 0 = Some (mixture_sum ext tables angles)"
  using sky_pdf_loop_closed [OF assms, of 0 ext angles 0]
  by (simp add: mixture_sum_def atLeast0LessThan)

lemma reference_angles_theta: "snd (reference_angles ext d s) = fst (dir_to_sph ext d)"
  by (simp add: reference_angles_def Let_def)

text \<open>
  Claim C6. For every query direction \<open>sky_pdf\<close> returns 0 whenever the direction is below
  the horizon (\<open>cos_theta < 0\<close>), has \<open>sin_theta = 0\<close>, or its elevation angle in the
  reference frame lies outside \<open>[0, \<pi>/2]\<close>; otherwise, on an active lane, it returns the
  mixture sum divided by \<open>max sin_theta Epsilon\<close>.
\<close>

theorem sky_pdf_zero_outside_domain:
  assumes "4 * TGMM_COMPONENTS * TGMM_GAUSSIAN_PARAMS \<le> length tables"
  shows "(cos_theta ext local_dir < 0 \<or> sin_theta ext local_dir = 0
            \<or> snd (reference_angles ext local_dir sun_angles) < 0
            \<or> snd (reference_angles ext local_dir sun_angles) > 0.5 * pi
          \<longrightarrow> sky_pdf vectorised ext tables local_dir sun_angles active = Some 0)
       \<and> (active \<and> cos_theta ext local_dir \<ge> 0 \<and> sin_theta ext local_dir \<noteq> 0
            \<and> 0 \<le> snd (reference_angles ext local_dir sun_angles)
            \<and> snd (reference_angles ext local_dir sun_angles) \<le> 0.5 * pi
          \<longrightarrow> sky_pdf vectorised ext tables local_dir sun_angles active
                = Some (mixture_sum ext tables (reference_angles ext local_dir sun_angles)
                        / max (sin_theta ext local_dir) (Epsilon ext)))
       \<and> snd (reference_angles ext local_dir sun_angles) = fst (dir_to_sph ext local_dir)"
proof -
  let ?angles = "reference_angles ext local_dir sun_angles"
  have loop: "sky_pdf_loop ext tables ?angles 0 0
                = Some (mixture_sum ext tables ?angles)"
    by (rule sky_pdf_loop_sum [OF assms])
  have zero: "sky_pdf vectorised ext tables local_dir sun_angles active = Some 0"
    if "cos_theta ext local_dir < 0 \<or> sin_theta ext local_dir = 0
            \<or> snd ?angles < 0 \<or> snd ?angles > 0.5 * pi"
    using that by (auto simp: sky_pdf_def Let_def loop select_def)
  have val: "sky_pdf vectorised ext tables local_dir sun_angles active
                = Some (mixture_sum ext tables ?angles
                        / max (sin_theta ext local_dir) (Epsilon ext))"
    if "active \<and> cos_theta ext local_dir \<ge> 0 \<and> sin_theta ext local_dir \<noteq> 0
            \<and> 0 \<le> snd ?angles \<and> snd ?angles \<le> 0.5 * pi"
    using that by (simp add: sky_pdf_def Let_def loop select_def)
  show ?thesis
    using zero val reference_angles_theta [of ext local_dir sun_angles] by blast
qed

theorem sky_pdf_zero_outside_domain_witness:
  "4 * TGMM_COMPONENTS * TGMM_GAUSSIAN_PARAMS \<le> length (replicate 100 (1 :: real))
   \<and> cos_theta \<lparr>sin_theta = (\<lambda>(x, y, z). sqrt (x * x + y * y)), cos_theta = (\<lambda>(x, y, z). z),
         dir_to_sph = (\<lambda>(x, y, z). (arccos z, 0)), gaussian_cdf = (\<lambda>mu sigma x. x),
         square_to_std_normal_pdf = (\<lambda>p. 1), Epsilon = 1 / 2 ^ 24\<rparr> (0, 0, - 1) < 0
   \<and> sky_pdf False \<lparr>sin_theta = (\<lambda>(x, y, z). sqrt (x * x + y * y)), cos_theta = (\<lambda>(x, y, z). z),
         dir_to_sph = (\<lambda>(x, y, z). (arccos z, 0)), gaussian_cdf = (\<lambda>mu sigma x. x),
         square_to_std_normal_pdf = (\<lambda>p. 1), Epsilon = 1 / 2 ^ 24\<rparr>
        (replicate 100 1) (0, 0, - 1) (0, 0) True = Some 0
   \<and> sky_pdf False \<lparr>sin_theta = (\<lambda>(x, y, z). sqrt (x * x + y * y)), cos_theta = (\<lambda>(x, y, z). z),
         dir_to_sph = (\<lambda>(x, y, z). (arccos z, 0)), gaussian_cdf = (\<lambda>mu sigma x. x),
         square_to_std_normal_pdf = (\<lambda>p. 1), Epsilon = 1 / 2 ^ 24\<rparr>
        (replicate 100 1) (1, 0, 0) (0, 0) True
       = Some (mixture_sum \<lparr>sin_theta = (\<lambda>(x, y, z). sqrt (x * x + y * y)),
                 cos_theta = (\<lambda>(x, y, z). z),
                 dir_to_sph = (\<lambda>(x, y, z). (arccos z, 0)), gaussian_cdf = (\<lambda>mu sigma x. x),
                 square_to_std_normal_pdf = (\<lambda>p. 1), Epsilon = 1 / 2 ^ 24\<rparr>
                (replicate 100 1) (pi / 2, pi / 2))"
proof -
  let ?ext = "\<lparr>sin_theta = (\<lambda>(x, y, z). sqrt (x * x + y * y)), cos_theta = (\<lambda>(x, y, z). z),
         dir_to_sph = (\<lambda>(x, y, z). (arccos z, 0)), gaussian_cdf = (\<lambda>mu sigma x. x),
         square_to_std_normal_pdf = (\<lambda>p. 1), Epsilon = 1 / 2 ^ 24\<rparr> :: pdf_ext"
  have h: "4 * TGMM_COMPONENTS * TGMM_GAUSSIAN_PARAMS \<le> length (replicate 100 (1 :: real))"
    by (simp add: TGMM_COMPONENTS_def TGMM_GAUSSIAN_PARAMS_def)
  have below: "cos_theta ?ext (0, 0, - 1) < 0" by simp
  have ang: "reference_angles ?ext (1, 0, 0) (0, 0) = (pi / 2, pi / 2)"
    by (simp add: reference_angles_def Let_def select_def TwoPi_def)
  have inside: "True \<and> cos_theta ?ext (1, 0, 0) \<ge> 0 \<and> sin_theta ?ext (1, 0, 0) \<noteq> 0
            \<and> 0 \<le> snd (reference_angles ?ext (1, 0, 0) (0, 0))
            \<and> snd (reference_angles ?ext (1, 0, 0) (0, 0)) \<le> 0.5 * pi"
    unfolding ang by simp
  note T0 = sky_pdf_zero_outside_domain [OF h, of ?ext "(0, 0, - 1)" "(0, 0)" False True]
  note T1 = sky_pdf_zero_outside_domain [OF h, of ?ext "(1, 0, 0)" "(0, 0)" False True]
  have "sky_pdf False ?ext (replicate 100 1) (0, 0, - 1) (0, 0) True = Some 0"
    using T0 [THEN conjunct1] below by blast
  moreover have "sky_pdf False ?ext (replicate 100 1) (1, 0, 0) (0, 0) True
       = Some (mixture_sum ?ext (replicate 100 1) (pi / 2, pi / 2))"
    using T1 [THEN conjunct2, THEN conjunct1, THEN mp, OF inside] unfolding ang by simp
  ultimately show ?thesis using h below by (intro conjI)
qed


section \<open>Construction and change notification\<close>

lemma init_sun_both_given:
  assumes "has_property props ''sun_direction''" and "time_location_given props"
  shows "init_sun ext props base = Inl (LogError both_given_message)"
  using assms by (simp add: init_sun_def)

text \<open>
  Claim C7. When \<open>sun_direction\<close> and any of the nine location/time properties are both
  given, construction fails: once the base class is constructed the error of the
  validation is raised, whatever the datasets, the interpolation stage and the TGMM table
  file are, so before any coefficient or mixture table is computed.
\<close>

theorem constructor_rejects_both_modes:
  assumes "has_property props ''sun_direction''"
    and "has_property props ''latitude'' \<or> has_property props ''longitude''
         \<or> has_property props ''timezone'' \<or> has_property props ''year''
         \<or> has_property props ''month'' \<or> has_property props ''day''
         \<or> has_property props ''hour'' \<or> has_property props ''minute''
         \<or> has_property props ''second''"
  shows "(\<exists>e. SunskyEmitter ext props = Inl e)
       \<and> (\<forall>base. base_constructor ext props = Inr base \<longrightarrow>
             SunskyEmitter ext props = Inl (LogError both_given_message))
       \<and> SunskyEmitter (ext\<lparr>bilinear_interp := interp, tgmm_tables_file := file\<rparr>) props
           = SunskyEmitter ext props"
proof -
  have tl: "time_location_given props"
    using assms(2) by (simp add: time_location_given_def)
  have err: "SunskyEmitter x props = Inl (LogError both_given_message)"
    if "base_constructor x props = Inr base" for x :: "'a emitter_ext" and base
    using that
    by (simp add: SunskyEmitter_def and_then_def init_sun_both_given [OF assms(1) tl])
  have fail: "SunskyEmitter x props = Inl e"
    if "base_constructor x props = Inl e" for x :: "'a emitter_ext" and e
    using that by (simp add: SunskyEmitter_def and_then_def)
  have 1: "\<exists>e. SunskyEmitter ext props = Inl e"
    using err [of ext] fail [of ext] by (cases "base_constructor ext props") auto
  have 2: "\<forall>base. base_constructor ext props = Inr base \<longrightarrow>
             SunskyEmitter ext props = Inl (LogError both_given_message)"
    using err by blast
  have 3: "SunskyEmitter (ext\<lparr>bilinear_interp := interp, tgmm_tables_file := file\<rparr>) props
           = SunskyEmitter ext props"
  proof (cases "base_constructor ext props")
    case (Inl e)
    then show ?thesis
      using fail [of ext e] fail [of "ext\<lparr>bilinear_interp := interp, tgmm_tables_file := file\<rparr>" e]
      by simp
  next
    case (Inr base)
    then show ?thesis
      using err [of ext base]
        err [of "ext\<lparr>bilinear_interp := interp, tgmm_tables_file := file\<rparr>" base]
      by simp
  qed
  from 1 2 3 show ?thesis by (intro conjI)
qed

text \<open>
  Claim C8. \<open>sample_wlgth\<close> raises the "not implemented" error exactly in the non-spectral
  variants; in the spectral variants it returns the wavelengths drawn from the stored
  wavelength distribution together with the reciprocal of their density.
\<close>

theorem sample_wlgth_spectral_only:
  "sample_wlgth ext st sample active =
     (if variant_of ext = Spectral
      then Inr (fst (sample_pdf ext (m_spectral_distr st) (sample_shifted ext sample) active),
                map (fdiv 1)
                  (snd (sample_pdf ext (m_spectral_distr st) (sample_shifted ext sample) active)))
      else Inl (NotImplementedError ''sample_wavelengths''))
   \<and> ((\<exists>e. sample_wlgth ext st sample active = Inl e) = (variant_of ext \<noteq> Spectral))"
  by (simp add: sample_wlgth_def Let_def split_beta)

lemma update_ratio_frame:
  "Base (update_ratio ext st) = Base st"
  "m_sun_dir (update_ratio ext st) = m_sun_dir st"
  "m_sun_angles (update_ratio ext st) = m_sun_angles st"
  "m_active_record (update_ratio ext st) = m_active_record st"
  "m_time (update_ratio ext st) = m_time st"
  "m_location (update_ratio ext st) = m_location st"
  "m_sky_params (update_ratio ext st) = m_sky_params st"
  "m_sky_radiance (update_ratio ext st) = m_sky_radiance st"
  "m_gaussian_distr (update_ratio ext st) = m_gaussian_distr st"
  "m_tgmm_datasets (update_ratio ext st) = m_tgmm_datasets st"
  "m_tgmm_tables (update_ratio ext st) = m_tgmm_tables st"
  by (simp_all add: update_ratio_def split_beta)

lemma update_sun_angles_frame:
  "Base (update_sun_angles ext keys st) = Base st"
  "m_active_record (update_sun_angles ext keys st) = m_active_record st"
  "m_time (update_sun_angles ext keys st) = m_time st"
  "m_location (update_sun_angles ext keys st) = m_location st"
  "m_sky_params (update_sun_angles ext keys st) = m_sky_params st"
  "m_sky_radiance (update_sun_angles ext keys st) = m_sky_radiance st"
  "m_gaussian_distr (update_sun_angles ext keys st) = m_gaussian_distr st"
  "m_tgmm_datasets (update_sun_angles ext keys st) = m_tgmm_datasets st"
  "m_tgmm_tables (update_sun_angles ext keys st) = m_tgmm_tables st"
  by (simp_all add: update_sun_angles_def split_beta Let_def)

lemma update_sky_ok:
  assumes "\<forall>ds al tu. shape0 (bilinear_interp ext ds al tu) = SKY_CTRL_PTS"
    and "OneMinusEpsilon ext < 1"
  shows "\<exists>p r. update_sky ext eta st = Inr (st\<lparr>m_sky_params := p, m_sky_radiance := r\<rparr>)
           \<and> bezier_interp (OneMinusEpsilon ext)
                (bilinear_interp ext (m_sky_params_dataset (Base st)) (m_albedo (Base st))
                   (m_turbidity (Base st))) eta = Some p
           \<and> bezier_interp (OneMinusEpsilon ext)
                (bilinear_interp ext (m_sky_rad_dataset (Base st)) (m_albedo (Base st))
                   (m_turbidity (Base st))) eta = Some r"
proof -
  let ?tp = "bilinear_interp ext (m_sky_params_dataset (Base st)) (m_albedo (Base st))
               (m_turbidity (Base st))"
  let ?tr = "bilinear_interp ext (m_sky_rad_dataset (Base st)) (m_albedo (Base st))
               (m_turbidity (Base st))"
  have sp: "shape0 ?tp = SKY_CTRL_PTS" and sr: "shape0 ?tr = SKY_CTRL_PTS"
    using assms(1) by blast+
  from bezier_interp_closed [OF sp assms(2), of eta] obtain p where
    p: "bezier_interp (OneMinusEpsilon ext) ?tp eta = Some p" by blast
  from bezier_interp_closed [OF sr assms(2), of eta] obtain r where
    r: "bezier_interp (OneMinusEpsilon ext) ?tr eta = Some r" by blast
  have "update_sky ext eta st = Inr (st\<lparr>m_sky_params := p, m_sky_radiance := r\<rparr>)"
    by (simp add: update_sky_def Let_def and_then_def in_bounds_def p r)
  with p r show ?thesis by blast
qed

lemma update_tgmm_ok:
  assumes "2 \<le> TURBITDITY_LVLS ext" and "1 \<le> ELEVATION_CTRL_PTS ext"
    and "length (m_tgmm_datasets st) =
           (TURBITDITY_LVLS ext - 1) * ELEVATION_CTRL_PTS ext
           * (TGMM_COMPONENTS * TGMM_GAUSSIAN_PARAMS)"
    and "length (m_tgmm_datasets st) < 2 ^ 32"
  shows "\<exists>t d. update_tgmm ext eta st = Inr (st\<lparr>m_tgmm_tables := t, m_gaussian_distr := d\<rparr>)
           \<and> build_tgmm_distribution (TURBITDITY_LVLS ext) (ELEVATION_CTRL_PTS ext)
                (m_tgmm_datasets st) (m_turbidity (Base st)) eta = Some (t, d)"
proof -
  from build_tgmm_distribution_wellformed(1) [OF assms, of "m_turbidity (Base st)" eta]
  obtain t d where b: "build_tgmm_distribution (TURBITDITY_LVLS ext) (ELEVATION_CTRL_PTS ext)
                (m_tgmm_datasets st) (m_turbidity (Base st)) eta = Some (t, d)"
    by blast
  then have "update_tgmm ext eta st = Inr (st\<lparr>m_tgmm_tables := t, m_gaussian_distr := d\<rparr>)"
    by (simp add: update_tgmm_def and_then_def in_bounds_def)
  with b show ?thesis by blast
qed

lemma update_sky_frame:
  assumes "update_sky ext eta st = Inr st'"
  shows "m_tgmm_tables st' = m_tgmm_tables st" and "m_gaussian_distr st' = m_gaussian_distr st"
    and "m_sun_dir st' = m_sun_dir st" and "m_sun_angles st' = m_sun_angles st"
    and "m_active_record st' = m_active_record st" and "Base st' = Base st"
    and "m_tgmm_datasets st' = m_tgmm_datasets st"
  using assms
  by (auto simp: update_sky_def Let_def and_then_def in_bounds_def split: option.splits)

lemma update_tgmm_frame:
  assumes "update_tgmm ext eta st = Inr st'"
  shows "m_sky_params st' = m_sky_params st" and "m_sky_radiance st' = m_sky_radiance st"
    and "m_sun_dir st' = m_sun_dir st" and "m_sun_angles st' = m_sun_angles st"
    and "m_active_record st' = m_active_record st" and "Base st' = Base st"
  using assms
  by (auto simp: update_tgmm_def and_then_def in_bounds_def split: option.splits)

lemma albedo_only_flags:
  assumes "set keys = {''albedo''}"
  shows "changed_atmosphere keys" and "\<not> changed_time_record keys a"
    and "\<not> changed_sun_dir keys a" and "\<not> CHANGED keys ''turbidity''"
proof -
  have ne: "keys \<noteq> []"
  proof
    assume "keys = []"
    then have "set keys = {}" by simp
    with assms show False by simp
  qed
  have m: "CHANGED keys w \<longleftrightarrow> w = ''albedo''" for w
    unfolding CHANGED_def assms by simp
  show "changed_atmosphere keys"
    unfolding changed_atmosphere_def m by simp
  show t: "\<not> changed_time_record keys a"
    unfolding changed_time_record_def m using ne by simp
  show "\<not> changed_sun_dir keys a"
    unfolding changed_sun_dir_def using t by (simp add: m)
  show "\<not> CHANGED keys ''turbidity''"
    unfolding m by simp
qed

text \<open>
  Claim C3. A call of \<open>parameters_changed\<close> whose keys are only \<open>albedo\<close> returns with the
  combined mixture table and the component selection distribution unchanged; a call whose
  keys contain \<open>turbidity\<close> recomputes the interpolated coefficients and, given a well-formed
  TGMM dataset, the mixture table and its distribution.
\<close>

theorem parameters_changed_isolation:
  assumes "base_parameters_changed ext keys (Base st) = Inr base"
    and "\<forall>ds al tu. shape0 (bilinear_interp ext ds al tu) = SKY_CTRL_PTS"
    and "OneMinusEpsilon ext < 1"
  shows "(set keys = {''albedo''} \<longrightarrow>
           (\<exists>st'. parameters_changed ext keys st = Inr st'
              \<and> m_tgmm_tables st' = m_tgmm_tables st
              \<and> m_gaussian_distr st' = m_gaussian_distr st))
       \<and> (''turbidity'' \<in> set keys
            \<and> 2 \<le> TURBITDITY_LVLS ext \<and> 1 \<le> ELEVATION_CTRL_PTS ext
            \<and> length (m_tgmm_datasets st) =
                 (TURBITDITY_LVLS ext - 1) * ELEVATION_CTRL_PTS ext
                 * (TGMM_COMPONENTS * TGMM_GAUSSIAN_PARAMS)
            \<and> length (m_tgmm_datasets st) < 2 ^ 32 \<longrightarrow>
           (\<exists>st'. parameters_changed ext keys st = Inr st'
              \<and> bezier_interp (OneMinusEpsilon ext)
                   (bilinear_interp ext (m_sky_params_dataset base) (m_albedo base)
                      (m_turbidity base))
                   (0.5 * pi - snd (m_sun_angles st')) = Some (m_sky_params st')
              \<and> bezier_interp (OneMinusEpsilon ext)
                   (bilinear_interp ext (m_sky_rad_dataset base) (m_albedo base)
                      (m_turbidity base))
                   (0.5 * pi - snd (m_sun_angles st')) = Some (m_sky_radiance st')
              \<and> build_tgmm_distribution (TURBITDITY_LVLS ext) (ELEVATION_CTRL_PTS ext)
                   (m_tgmm_datasets st) (m_turbidity base)
                   (0.5 * pi - snd (m_sun_angles st'))
                 = Some (m_tgmm_tables st', m_gaussian_distr st')))"
proof (intro conjI impI)
  define s1 where "s1 = update_sun_angles ext keys (st\<lparr>Base := base\<rparr>)"
  define eta where "eta = 0.5 * pi - snd (m_sun_angles s1)"
  have pc: "parameters_changed ext keys st =
              and_then (if changed_sun_dir keys (m_active_record s1) \<or> changed_atmosphere keys
                        then update_sky ext eta s1 else Inr s1) (\<lambda>st.
              and_then (if changed_sun_dir keys (m_active_record st) \<or> CHANGED keys ''turbidity''
                        then update_tgmm ext eta st else Inr st) (\<lambda>st.
              Inr (update_ratio ext st)))"
    by (simp only: parameters_changed_def Let_def assms(1) and_then_def sum.case s1_def eta_def)
  have s1_frame: "m_tgmm_tables s1 = m_tgmm_tables st" "m_gaussian_distr s1 = m_gaussian_distr st"
    "m_tgmm_datasets s1 = m_tgmm_datasets st" "Base s1 = base"
    "m_active_record s1 = m_active_record st"
    by (simp_all add: s1_def update_sun_angles_frame)
  from update_sky_ok [OF assms(2,3), of eta s1] obtain p r where
    sky: "update_sky ext eta s1 = Inr (s1\<lparr>m_sky_params := p, m_sky_radiance := r\<rparr>)"
    and p: "bezier_interp (OneMinusEpsilon ext)
                (bilinear_interp ext (m_sky_params_dataset base) (m_albedo base)
                   (m_turbidity base)) eta = Some p"
    and r: "bezier_interp (OneMinusEpsilon ext)
                (bilinear_interp ext (m_sky_rad_dataset base) (m_albedo base)
                   (m_turbidity base)) eta = Some r"
    unfolding s1_frame by blast
  define s2 where "s2 = s1\<lparr>m_sky_params := p, m_sky_radiance := r\<rparr>"
  {
    assume only: "set keys = {''albedo''}"
    note f = albedo_only_flags [OF only]
    have "parameters_changed ext keys st = Inr (update_ratio ext s2)"
      unfolding pc using f(1) f(3) [of "m_active_record s1"] f(3) [of "m_active_record s2"] f(4)
      by (simp add: sky and_then_def s2_def)
    moreover have "m_tgmm_tables (update_ratio ext s2) = m_tgmm_tables st"
      "m_gaussian_distr (update_ratio ext s2) = m_gaussian_distr st"
      by (simp_all add: update_ratio_frame s2_def s1_frame)
    ultimately show "\<exists>st'. parameters_changed ext keys st = Inr st'
              \<and> m_tgmm_tables st' = m_tgmm_tables st
              \<and> m_gaussian_distr st' = m_gaussian_distr st"
      by blast
  }
  {
    assume h: "''turbidity'' \<in> set keys
            \<and> 2 \<le> TURBITDITY_LVLS ext \<and> 1 \<le> ELEVATION_CTRL_PTS ext
            \<and> length (m_tgmm_datasets st) =
                 (TURBITDITY_LVLS ext - 1) * ELEVATION_CTRL_PTS ext
                 * (TGMM_COMPONENTS * TGMM_GAUSSIAN_PARAMS)
            \<and> length (m_tgmm_datasets st) < 2 ^ 32"
    then have turb: "CHANGED keys ''turbidity''" and atm: "changed_atmosphere keys"
      by (simp_all add: CHANGED_def changed_atmosphere_def)
    have ds2: "m_tgmm_datasets s2 = m_tgmm_datasets st" and b2: "Base s2 = base"
      by (simp_all add: s2_def s1_frame)
    from h have w: "2 \<le> TURBITDITY_LVLS ext" "1 \<le> ELEVATION_CTRL_PTS ext"
      "length (m_tgmm_datasets s2) =
                 (TURBITDITY_LVLS ext - 1) * ELEVATION_CTRL_PTS ext
                 * (TGMM_COMPONENTS * TGMM_GAUSSIAN_PARAMS)"
      "length (m_tgmm_datasets s2) < 2 ^ 32"
      unfolding ds2 by blast+
    from update_tgmm_ok [OF w, of eta] obtain t d where
      tg: "update_tgmm ext eta s2 = Inr (s2\<lparr>m_tgmm_tables := t, m_gaussian_distr := d\<rparr>)"
      and b: "build_tgmm_distribution (TURBITDITY_LVLS ext) (ELEVATION_CTRL_PTS ext)
                (m_tgmm_datasets st) (m_turbidity base) eta = Some (t, d)"
      unfolding ds2 b2 by blast
    define s3 where "s3 = s2\<lparr>m_tgmm_tables := t, m_gaussian_distr := d\<rparr>"
    have res: "parameters_changed ext keys st = Inr (update_ratio ext s3)"
      unfolding pc using turb atm by (simp add: sky and_then_def s2_def [symmetric] tg s3_def)
    have ang: "m_sun_angles (update_ratio ext s3) = m_sun_angles s1"
      by (simp add: update_ratio_frame s3_def s2_def)
    have e3: "0.5 * pi - snd (m_sun_angles (update_ratio ext s3)) = eta"
      by (simp only: ang eta_def)
    have fields: "m_sky_params (update_ratio ext s3) = p" "m_sky_radiance (update_ratio ext s3) = r"
      "m_tgmm_tables (update_ratio ext s3) = t" "m_gaussian_distr (update_ratio ext s3) = d"
      by (simp_all add: update_ratio_frame s3_def s2_def)
    have "bezier_interp (OneMinusEpsilon ext)
                   (bilinear_interp ext (m_sky_params_dataset base) (m_albedo base)
                      (m_turbidity base))
                   (0.5 * pi - snd (m_sun_angles (update_ratio ext s3)))
            = Some (m_sky_params (update_ratio ext s3))"
      unfolding e3 fields by (rule p)
    moreover have "bezier_interp (OneMinusEpsilon ext)
                   (bilinear_interp ext (m_sky_rad_dataset base) (m_albedo base)
                      (m_turbidity base))
                   (0.5 * pi - snd (m_sun_angles (update_ratio ext s3)))
            = Some (m_sky_radiance (update_ratio ext s3))"
      unfolding e3 fields by (rule r)
    moreover have "build_tgmm_distribution (TURBITDITY_LVLS ext) (ELEVATION_CTRL_PTS ext)
                   (m_tgmm_datasets st) (m_turbidity base)
                   (0.5 * pi - snd (m_sun_angles (update_ratio ext s3)))
                 = Some (m_tgmm_tables (update_ratio ext s3),
                         m_gaussian_distr (update_ratio ext s3))"
      unfolding e3 fields by (rule b)
    ultimately show "\<exists>st'. parameters_changed ext keys st = Inr st'
              \<and> bezier_interp (OneMinusEpsilon ext)
                   (bilinear_interp ext (m_sky_params_dataset base) (m_albedo base)
                      (m_turbidity base))
                   (0.5 * pi - snd (m_sun_angles st')) = Some (m_sky_params st')
              \<and> bezier_interp (OneMinusEpsilon ext)
                   (bilinear_interp ext (m_sky_rad_dataset base) (m_albedo base)
                      (m_turbidity base))
                   (0.5 * pi - snd (m_sun_angles st')) = Some (m_sky_radiance st')
              \<and> build_tgmm_distribution (TURBITDITY_LVLS ext) (ELEVATION_CTRL_PTS ext)
                   (m_tgmm_datasets st) (m_turbidity base)
                   (0.5 * pi - snd (m_sun_angles st'))
                 = Some (m_tgmm_tables st', m_gaussian_distr st')"
      using res by blast
  }
qed

lemma update_sky_frame_time:
  assumes "update_sky ext eta st = Inr st'"
  shows "m_time st' = m_time st" and "m_location st' = m_location st"
  using assms
  by (auto simp: update_sky_def Let_def and_then_def in_bounds_def split: option.splits)

lemma update_tgmm_frame_time:
  assumes "update_tgmm ext eta st = Inr st'"
  shows "m_time st' = m_time st" and "m_location st' = m_location st"
    and "m_tgmm_datasets st' = m_tgmm_datasets st"
  using assms
  by (auto simp: update_tgmm_def and_then_def in_bounds_def split: option.splits)

lemma init_sun_direct:
  assumes "init_sun ext props base = Inr (a, d, t, l)" and "has_property props ''sun_direction''"
  shows "a = False" and "t = default_time ext" and "l = default_location ext"
    and "\<exists>v. get_vector props ''sun_direction'' = Inr v \<and> d = normalize ext v"
  using assms
  by (auto simp: init_sun_def and_then_def split: if_splits sum.splits)

lemma constructor_direct_mode:
  assumes "SunskyEmitter ext props = Inr st" and "has_property props ''sun_direction''"
  shows "\<not> m_active_record st \<and> m_time st = default_time ext
         \<and> m_location st = default_location ext
         \<and> (\<exists>v. get_vector props ''sun_direction'' = Inr v \<and> m_sun_dir st = normalize ext v)
         \<and> tgmm_tables_file ext = Inr (m_tgmm_datasets st)
         \<and> base_constructor ext props = Inr (Base st)"
proof -
  from assms(1) obtain base where base: "base_constructor ext props = Inr base"
    by (cases "base_constructor ext props") (simp_all add: SunskyEmitter_def and_then_def)
  from assms(1) base obtain a d t l where init: "init_sun ext props base = Inr (a, d, t, l)"
    by (cases "init_sun ext props base") (auto simp: SunskyEmitter_def and_then_def)
  define ang where "ang = dir_to_sph_of ext
      (transform_apply ext (transform_inverse ext (m_to_world base)) d)"
  define eta where "eta = 0.5 * pi - snd (snd ang, fst ang)"
  define s0 :: "'a emitter" where "s0 = \<lparr>Base = base, m_sun_dir = d, m_sun_angles = (snd ang, fst ang),
                     m_active_record = a, m_time = t, m_location = l,
                     m_sky_params = [], m_sky_radiance = [], m_sky_sampling_w = Finite 0,
                     m_gaussian_distr = [], m_spectral_distr = EmptyDistribution,
                     m_tgmm_datasets = [], m_tgmm_tables = []\<rparr>"
  have ctor: "SunskyEmitter ext props =
     and_then (update_sky ext eta s0) (\<lambda>st.
        and_then (tgmm_tables_file ext) (\<lambda>tgmm.
        and_then (update_tgmm ext eta (st\<lparr>m_tgmm_datasets := tgmm\<rparr>)) (\<lambda>st.
        Inr (update_ratio ext st))))"
    by (simp only: SunskyEmitter_def base init and_then_def sum.case prod.case Let_def
        s0_def eta_def ang_def)
  from assms(1) obtain s1 where s1: "update_sky ext eta s0 = Inr s1"
    unfolding ctor by (cases "update_sky ext eta s0") (simp_all add: and_then_def)
  from assms(1) obtain tg where tg: "tgmm_tables_file ext = Inr tg"
    unfolding ctor s1 by (cases "tgmm_tables_file ext") (simp_all add: and_then_def)
  from assms(1) obtain s2 where s2: "update_tgmm ext eta (s1\<lparr>m_tgmm_datasets := tg\<rparr>) = Inr s2"
    unfolding ctor s1 tg
    by (cases "update_tgmm ext eta (s1\<lparr>m_tgmm_datasets := tg\<rparr>)") (simp_all add: and_then_def)
  from assms(1) have st: "st = update_ratio ext s2"
    unfolding ctor s1 tg using s2 by (simp add: and_then_def)
  have "m_active_record st = a" "m_time st = t" "m_location st = l" "m_sun_dir st = d"
    "m_tgmm_datasets st = tg" "Base st = base"
    unfolding st update_ratio_frame
    using update_tgmm_frame [OF s2] update_tgmm_frame_time [OF s2]
      update_sky_frame [OF s1] update_sky_frame_time [OF s1]
    by (simp_all add: s0_def)
  with init_sun_direct [OF init assms(2)] tg base show ?thesis by simp
qed

lemma constructor_direct_ok:
  assumes "base_constructor ext props = Inr base"
    and "has_property props ''sun_direction''" and "\<not> time_location_given props"
    and "get_vector props ''sun_direction'' = Inr v"
    and "\<forall>ds al tu. shape0 (bilinear_interp ext ds al tu) = SKY_CTRL_PTS"
    and "OneMinusEpsilon ext < 1"
    and "tgmm_tables_file ext = Inr tg"
    and "2 \<le> TURBITDITY_LVLS ext" and "1 \<le> ELEVATION_CTRL_PTS ext"
    and "length tg = (TURBITDITY_LVLS ext - 1) * ELEVATION_CTRL_PTS ext
           * (TGMM_COMPONENTS * TGMM_GAUSSIAN_PARAMS)"
    and "length tg < 2 ^ 32"
  shows "\<exists>st. SunskyEmitter ext props = Inr st"
proof -
  have init: "init_sun ext props base
                = Inr (False, normalize ext v, default_time ext, default_location ext)"
    using assms(2,3,4) by (simp add: init_sun_def and_then_def)
  define ang where "ang = dir_to_sph_of ext
      (transform_apply ext (transform_inverse ext (m_to_world base)) (normalize ext v))"
  define eta where "eta = 0.5 * pi - snd (snd ang, fst ang)"
  define s0 :: "'a emitter" where "s0 = \<lparr>Base = base, m_sun_dir = normalize ext v,
                     m_sun_angles = (snd ang, fst ang),
                     m_active_record = False, m_time = default_time ext,
                     m_location = default_location ext,
                     m_sky_params = [], m_sky_radiance = [], m_sky_sampling_w = Finite 0,
                     m_gaussian_distr = [], m_spectral_distr = EmptyDistribution,
                     m_tgmm_datasets = [], m_tgmm_tables = []\<rparr>"
  have ctor: "SunskyEmitter ext props =
     and_then (update_sky ext eta s0) (\<lambda>st.
        and_then (tgmm_tables_file ext) (\<lambda>tgmm.
        and_then (update_tgmm ext eta (st\<lparr>m_tgmm_datasets := tgmm\<rparr>)) (\<lambda>st.
        Inr (update_ratio ext st))))"
    by (simp only: SunskyEmitter_def assms(1) init and_then_def sum.case prod.case Let_def
        s0_def eta_def ang_def)
  from update_sky_ok [OF assms(5,6), of eta s0] obtain s1 where
    s1: "update_sky ext eta s0 = Inr s1" by blast
  have "\<exists>t d. update_tgmm ext eta (s1\<lparr>m_tgmm_datasets := tg\<rparr>)
           = Inr (s1\<lparr>m_tgmm_datasets := tg\<rparr>\<lparr>m_tgmm_tables := t, m_gaussian_distr := d\<rparr>)
         \<and> build_tgmm_distribution (TURBITDITY_LVLS ext) (ELEVATION_CTRL_PTS ext)
                (m_tgmm_datasets (s1\<lparr>m_tgmm_datasets := tg\<rparr>))
                (m_turbidity (Base (s1\<lparr>m_tgmm_datasets := tg\<rparr>))) eta = Some (t, d)"
    using assms(8-11) by (intro update_tgmm_ok) simp_all
  then obtain s2 where s2: "update_tgmm ext eta (s1\<lparr>m_tgmm_datasets := tg\<rparr>) = Inr s2"
    by blast
  show ?thesis
    unfolding ctor by (simp add: s1 assms(7) s2 and_then_def)
qed

lemma empty_keys_flags: "changed_time_record [] a" "changed_sun_dir [] a" "changed_atmosphere []"
  by (simp_all add: changed_time_record_def changed_sun_dir_def changed_atmosphere_def)

text \<open>
  Claim C9. In direct sun-direction mode the constructor leaves the time and location
  records default-constructed and stores the normalised \<open>sun_direction\<close>; a later call of
  \<open>parameters_changed\<close> with no keys while \<open>m_active_record\<close> is false recomputes the sun
  direction and the sun angles from the stored time and location records, replacing the
  direction the user supplied.
\<close>

theorem empty_keys_overwrite_sun_direction:
  assumes "\<not> m_active_record st"
    and "base_parameters_changed ext [] (Base st) = Inr base"
    and "\<forall>ds al tu. shape0 (bilinear_interp ext ds al tu) = SKY_CTRL_PTS"
    and "OneMinusEpsilon ext < 1"
    and "2 \<le> TURBITDITY_LVLS ext" and "1 \<le> ELEVATION_CTRL_PTS ext"
    and "length (m_tgmm_datasets st) =
           (TURBITDITY_LVLS ext - 1) * ELEVATION_CTRL_PTS ext
           * (TGMM_COMPONENTS * TGMM_GAUSSIAN_PARAMS)"
    and "length (m_tgmm_datasets st) < 2 ^ 32"
  shows "(\<exists>st'. parameters_changed ext [] st = Inr st'
           \<and> m_sun_dir st' =
               transform_apply ext (m_to_world base)
                 (sph_to_dir ext (fst (sun_coordinates ext (m_time st) (m_location st)))
                    (snd (sun_coordinates ext (m_time st) (m_location st))))
           \<and> m_sun_angles st' =
               (snd (sun_coordinates ext (m_time st) (m_location st)),
                fst (sun_coordinates ext (m_time st) (m_location st))))
       \<and> (has_property props ''sun_direction'' \<and> SunskyEmitter ext props = Inr st \<longrightarrow>
            m_time st = default_time ext \<and> m_location st = default_location ext
            \<and> (\<exists>v. get_vector props ''sun_direction'' = Inr v \<and> m_sun_dir st = normalize ext v))"
proof (intro conjI impI)
  let ?sc = "sun_coordinates ext (m_time st) (m_location st)"
  define s1 where "s1 = update_sun_angles ext [] (st\<lparr>Base := base\<rparr>)"
  define eta where "eta = 0.5 * pi - snd (m_sun_angles s1)"
  have s1_fields: "m_sun_dir s1 = transform_apply ext (m_to_world base)
                                   (sph_to_dir ext (fst ?sc) (snd ?sc))"
    "m_sun_angles s1 = (snd ?sc, fst ?sc)" "Base s1 = base"
    "m_tgmm_datasets s1 = m_tgmm_datasets st"
    by (simp_all add: s1_def update_sun_angles_def empty_keys_flags split_beta)
  have pc: "parameters_changed ext [] st =
              and_then (update_sky ext eta s1) (\<lambda>st.
              and_then (update_tgmm ext eta st) (\<lambda>st. Inr (update_ratio ext st)))"
    by (simp only: parameters_changed_def Let_def assms(2) and_then_def sum.case s1_def eta_def
        empty_keys_flags simp_thms if_True)
  from update_sky_ok [OF assms(3,4), of eta s1] obtain p r where
    sky: "update_sky ext eta s1 = Inr (s1\<lparr>m_sky_params := p, m_sky_radiance := r\<rparr>)"
    by blast
  define s2 where "s2 = s1\<lparr>m_sky_params := p, m_sky_radiance := r\<rparr>"
  have ds2: "m_tgmm_datasets s2 = m_tgmm_datasets st"
    by (simp add: s2_def s1_fields)
  from update_tgmm_ok [of ext s2 eta] assms(5-8) obtain t d where
    tg: "update_tgmm ext eta s2 = Inr (s2\<lparr>m_tgmm_tables := t, m_gaussian_distr := d\<rparr>)"
    unfolding ds2 by blast
  define s3 where "s3 = s2\<lparr>m_tgmm_tables := t, m_gaussian_distr := d\<rparr>"
  have res: "parameters_changed ext [] st = Inr (update_ratio ext s3)"
    unfolding pc by (simp add: sky s2_def [symmetric] tg s3_def [symmetric] and_then_def)
  have "m_sun_dir (update_ratio ext s3) = m_sun_dir s1"
    "m_sun_angles (update_ratio ext s3) = m_sun_angles s1"
    by (simp_all add: update_ratio_frame s3_def s2_def)
  with res s1_fields(1,2)
  show "\<exists>st'. parameters_changed ext [] st = Inr st'
           \<and> m_sun_dir st' = transform_apply ext (m_to_world base)
                 (sph_to_dir ext (fst ?sc) (snd ?sc))
           \<and> m_sun_angles st' = (snd ?sc, fst ?sc)"
    by simp
next
  assume h: "has_property props ''sun_direction'' \<and> SunskyEmitter ext props = Inr st"
  then have c: "\<not> m_active_record st \<and> m_time st = default_time ext
         \<and> m_location st = default_location ext
         \<and> (\<exists>v. get_vector props ''sun_direction'' = Inr v \<and> m_sun_dir st = normalize ext v)"
    using constructor_direct_mode [of ext props st] by simp
  from c show "m_time st = default_time ext" by simp
  from c show "m_location st = default_location ext" by simp
  from c show "\<exists>v. get_vector props ''sun_direction'' = Inr v \<and> m_sun_dir st = normalize ext v"
    by simp
qed

lemma example_wellformed:
  "\<forall>ds al tu. shape0 (bilinear_interp example_ext ds al tu) = SKY_CTRL_PTS"
  "OneMinusEpsilon example_ext < 1"
  "2 \<le> TURBITDITY_LVLS example_ext" "1 \<le> ELEVATION_CTRL_PTS example_ext"
  "length (m_tgmm_datasets example_state) =
     (TURBITDITY_LVLS example_ext - 1) * ELEVATION_CTRL_PTS example_ext
     * (TGMM_COMPONENTS * TGMM_GAUSSIAN_PARAMS)"
  "length (m_tgmm_datasets example_state) < 2 ^ 32"
  "base_parameters_changed example_ext keys (Base example_state) = Inr example_base"
  "\<not> m_active_record example_state"
  by (simp_all add: example_ext_def example_state_def SKY_CTRL_PTS_def TGMM_COMPONENTS_def
      TGMM_GAUSSIAN_PARAMS_def del: upt_rec_numeral)

theorem constructor_rejects_both_modes_witness:
  "has_property example_props ''sun_direction'' \<and> has_property example_props ''latitude''
   \<and> SunskyEmitter example_ext example_props = Inl (LogError both_given_message)"
proof -
  have h1: "has_property example_props ''sun_direction''"
    by (simp add: has_property_def example_props_def)
  have l: "has_property example_props ''latitude''"
    by (simp add: has_property_def example_props_def)
  then have h2: "has_property example_props ''latitude'' \<or> has_property example_props ''longitude''
         \<or> has_property example_props ''timezone'' \<or> has_property example_props ''year''
         \<or> has_property example_props ''month'' \<or> has_property example_props ''day''
         \<or> has_property example_props ''hour'' \<or> has_property example_props ''minute''
         \<or> has_property example_props ''second''"
    by (rule disjI1)
  have b: "base_constructor example_ext example_props = Inr example_base"
    by (simp add: example_ext_def)
  from constructor_rejects_both_modes [OF h1 h2, of example_ext, THEN conjunct2, THEN conjunct1,
      rule_format, OF b]
  show ?thesis using h1 l by (intro conjI)
qed

theorem parameters_changed_isolation_witness:
  "set [''albedo''] = {''albedo''} \<and> ''turbidity'' \<in> set [''turbidity'']
   \<and> OneMinusEpsilon example_ext < 1
   \<and> (\<exists>st'. parameters_changed example_ext [''albedo''] example_state = Inr st'
         \<and> m_tgmm_tables st' = m_tgmm_tables example_state
         \<and> m_gaussian_distr st' = m_gaussian_distr example_state)
   \<and> (\<exists>st'. parameters_changed example_ext [''turbidity''] example_state = Inr st'
         \<and> build_tgmm_distribution (TURBITDITY_LVLS example_ext) (ELEVATION_CTRL_PTS example_ext)
              (m_tgmm_datasets example_state) (m_turbidity example_base)
              (0.5 * pi - snd (m_sun_angles st'))
            = Some (m_tgmm_tables st', m_gaussian_distr st'))"
proof -
  have k1: "set [''albedo''] = {''albedo''}" by simp
  have k2: "''turbidity'' \<in> set [''turbidity'']" by simp
  note w = example_wellformed
  from parameters_changed_isolation [OF w(7) w(1) w(2), of "[''albedo'']", THEN conjunct1,
      THEN mp, OF k1]
  have a: "\<exists>st'. parameters_changed example_ext [''albedo''] example_state = Inr st'
         \<and> m_tgmm_tables st' = m_tgmm_tables example_state
         \<and> m_gaussian_distr st' = m_gaussian_distr example_state" .
  have pre: "''turbidity'' \<in> set [''turbidity'']
            \<and> 2 \<le> TURBITDITY_LVLS example_ext \<and> 1 \<le> ELEVATION_CTRL_PTS example_ext
            \<and> length (m_tgmm_datasets example_state) =
                 (TURBITDITY_LVLS example_ext - 1) * ELEVATION_CTRL_PTS example_ext
                 * (TGMM_COMPONENTS * TGMM_GAUSSIAN_PARAMS)
            \<and> length (m_tgmm_datasets example_state) < 2 ^ 32"
    using k2 w(3) w(4) w(5) w(6) by (intro conjI)
  from parameters_changed_isolation [OF w(7) w(1) w(2), of "[''turbidity'']", THEN conjunct2,
      THEN mp, OF pre]
  have "\<exists>st'. parameters_changed example_ext [''turbidity''] example_state = Inr st'
         \<and> build_tgmm_distribution (TURBITDITY_LVLS example_ext) (ELEVATION_CTRL_PTS example_ext)
              (m_tgmm_datasets example_state) (m_turbidity example_base)
              (0.5 * pi - snd (m_sun_angles st'))
            = Some (m_tgmm_tables st', m_gaussian_distr st')"
    by blast
  with a k1 k2 w(2) show ?thesis by (intro conjI)
qed

theorem empty_keys_overwrite_sun_direction_witness:
  "has_property example_direct_props ''sun_direction''
   \<and> get_vector example_direct_props ''sun_direction'' = Inr (0, 0, 1)
   \<and> (\<exists>st. SunskyEmitter example_ext example_direct_props = Inr st
         \<and> \<not> m_active_record st
         \<and> m_sun_dir st = (0, 0, 1)
         \<and> m_time st = default_time example_ext
         \<and> m_location st = default_location example_ext
         \<and> (\<exists>st'. parameters_changed example_ext [] st = Inr st'
               \<and> m_sun_dir st' = (sin (pi / 4), 0, cos (pi / 4))
               \<and> m_sun_angles st' = (0, pi / 4)))"
proof -
  note w = example_wellformed
  have h: "has_property example_direct_props ''sun_direction''"
    by (simp add: has_property_def example_direct_props_def)
  have g: "get_vector example_direct_props ''sun_direction'' = Inr (0, 0, 1)"
    by (simp add: get_vector_def example_direct_props_def)
  have ntl: "\<not> time_location_given example_direct_props"
    by (simp add: time_location_given_def has_property_def example_direct_props_def)
  have b: "base_constructor example_ext example_direct_props = Inr example_base"
    by (simp add: example_ext_def)
  have f: "tgmm_tables_file example_ext = Inr (m_tgmm_datasets example_state)"
    by (simp add: example_ext_def example_state_def)
  from constructor_direct_ok [OF b h ntl g w(1) w(2) f w(3) w(4) w(5) w(6)]
  obtain st where st: "SunskyEmitter example_ext example_direct_props = Inr st" by blast
  from constructor_direct_mode [OF st h]
  have na: "\<not> m_active_record st" and ds: "tgmm_tables_file example_ext = Inr (m_tgmm_datasets st)"
    and bs: "base_constructor example_ext example_direct_props = Inr (Base st)"
    by simp_all
  from ds f have ds': "m_tgmm_datasets st = m_tgmm_datasets example_state" by simp
  from bs b have bs': "Base st = example_base" by simp
  have pcb: "base_parameters_changed example_ext [] (Base st) = Inr example_base"
    by (simp add: bs' example_ext_def)
  note T = empty_keys_overwrite_sun_direction [OF na pcb w(1) w(2) w(3) w(4) w(5) [folded ds']
      w(6) [folded ds'], of example_direct_props]
  from T [THEN conjunct2, THEN mp, OF conjI [OF h st]] g
  have c: "m_time st = default_time example_ext" "m_location st = default_location example_ext"
    "m_sun_dir st = (0, 0, 1)"
    by (simp_all add: example_ext_def)
  from T [THEN conjunct1] c(1,2)
  have "\<exists>st'. parameters_changed example_ext [] st = Inr st'
               \<and> m_sun_dir st' = (sin (pi / 4), 0, cos (pi / 4))
               \<and> m_sun_angles st' = (0, pi / 4)"
    by (simp add: example_ext_def)
  with st na c h g show ?thesis by blast
qed


end
